theory Spec2Isabelle
  imports Complex_Main "HOL-Library.Multiset"
begin

section \<open>The measurement engine of \<open>kperf service measure\<close>\<close>

text \<open>
  A shallow embedding of \<open>pkg/command/service/measure.go\<close>: the worker loop of
  \<open>MeasureServices\<close> (one iteration per queued service), the hand-over of items over the
  unbuffered channel, the merge of the per-worker results, the report, and \<open>sortSlice\<close>.

  What the Go runtime and the standard library provide is modelled from their documented
  behaviour: \<open>float64\<close> arithmetic (round to nearest, ties to even), \<open>time.Time.Sub\<close>
  (saturating), \<open>Duration.Seconds\<close>, \<open>strings.Split\<close>, \<open>strings.Contains\<close> and
  \<open>%d\<close> formatting; \<open>strconv.ParseInt\<close> follows the library's loop over the digits.
  What the platform answers, how \<open>sort.Slice\<close> arranges equal keys, how a time prints
  and what the statistics package returns are parameters.
\<close>

subsection \<open>\<open>float64\<close>\<close>

text \<open>
  A finite \<open>float64\<close> is the rational number it denotes. Every operation computes the
  exact result and rounds it to the nearest number with a 53-bit significand, ties to the
  even significand; below the exponent -1022 the spacing stays that of the subnormal
  numbers. The two zeros are one value, and no sum of this program leaves the finite
  range (a duration is below \<open>2 ^ 34\<close> seconds), so infinities and NaN are left
  out.
\<close>

type_synonym float64 = rat

fun bit_length :: "nat \<Rightarrow> nat" where
  "bit_length n = (if n = 0 then 0 else Suc (bit_length (n div 2)))"

definition exponent_of :: "rat \<Rightarrow> int" where
  \<comment> \<open>the \<open>e\<close> with \<open>2\<^sup>e \<le> |x| < 2\<^sup>e\<^sup>+\<^sup>1\<close>, for \<open>x \<noteq> 0\<close>\<close>
  "exponent_of x =
     (let a = \<bar>x\<bar> in
      if 1 \<le> a then int (bit_length (nat \<lfloor>a\<rfloor>)) - 1
      else - int (bit_length (nat (\<lceil>1 / a\<rceil> - 1))))"

definition round_half_even :: "rat \<Rightarrow> int" where
  "round_half_even y =
     (let f = \<lfloor>y\<rfloor>; r = y - of_int f in
      if r < 1 / 2 then f else if 1 / 2 < r then f + 1
      else if even f then f else f + 1)"

definition f64_round :: "rat \<Rightarrow> float64" where
  "f64_round x =
     (if x = 0 then 0
      else let q = 2 powi (max (exponent_of x) (- 1022) - 52)
           in of_int (round_half_even (x / q)) * q)"

definition f64_add :: "float64 \<Rightarrow> float64 \<Rightarrow> float64" where
  "f64_add x y = f64_round (x + y)"

definition f64_div :: "float64 \<Rightarrow> float64 \<Rightarrow> float64" where
  \<comment> \<open>for a divisor other than zero\<close>
  "f64_div x y = f64_round (x / y)"

definition f64_of_int :: "int \<Rightarrow> float64" where
  \<comment> \<open>the conversion \<open>float64(n)\<close>\<close>
  "f64_of_int n = f64_round (of_int n)"

definition int_of_f64 :: "float64 \<Rightarrow> int" where
  \<comment> \<open>the conversion \<open>int(x)\<close>: the fraction is dropped\<close>
  "int_of_f64 x = (if 0 \<le> x then \<lfloor>x\<rfloor> else \<lceil>x\<rceil>)"

subsection \<open>Instants and durations\<close>

text \<open>
  The API serves every timestamp in RFC 3339 at the precision of a second, and the code
  passes each one through \<open>Rfc3339Copy\<close>: an instant is a whole number of seconds since
  the epoch. The zero \<open>metav1.Time\<close> is the first second of year 1. A
  \<open>time.Duration\<close> is a signed 64-bit count of nanoseconds, and \<open>Sub\<close> returns the
  largest or smallest duration when the difference does not fit.
\<close>

type_synonym time = int
type_synonym duration = int

definition zeroTime :: time where
  "zeroTime = - 62135596800"

definition maxDuration :: duration where
  "maxDuration = 2 ^ 63 - 1"

definition minDuration :: duration where
  "minDuration = - (2 ^ 63)"

definition Sub :: "time \<Rightarrow> time \<Rightarrow> duration" where
  "Sub t u =
     (let d = (t - u) * 1000000000 in
      if d < minDuration then minDuration
      else if maxDuration < d then maxDuration
      else d)"

definition quot :: "int \<Rightarrow> int \<Rightarrow> int" where
  \<comment> \<open>Go's \<open>/\<close> on integers: towards zero\<close>
  "quot a b = sgn a * sgn b * (\<bar>a\<bar> div \<bar>b\<bar>)"

definition rem :: "int \<Rightarrow> int \<Rightarrow> int" where
  \<comment> \<open>Go's \<open>%\<close>\<close>
  "rem a b = a - b * quot a b"

definition Seconds :: "duration \<Rightarrow> float64" where
  "Seconds d =
     f64_add (f64_of_int (quot d 1000000000))
       (f64_div (f64_of_int (rem d 1000000000)) 1000000000)"

subsection \<open>Strings\<close>

fun strings_Contains :: "string \<Rightarrow> string \<Rightarrow> bool" where
  "strings_Contains [] sub = (sub = [])"
| "strings_Contains (c # s) sub =
     (take (length sub) (c # s) = sub \<or> strings_Contains s sub)"

fun strings_Split :: "string \<Rightarrow> char \<Rightarrow> string list" where
  "strings_Split [] sep = [[]]"
| "strings_Split (c # s) sep =
     (if c = sep then [] # strings_Split s sep
      else (case strings_Split s sep of
              [] \<Rightarrow> [[c]]
            | p # ps \<Rightarrow> (c # p) # ps))"

definition is_digit :: "char \<Rightarrow> bool" where
  "is_digit c = (c \<in> set ''0123456789'')"

definition digit_val :: "char \<Rightarrow> nat" where
  \<comment> \<open>the place of a digit among the ten digits\<close>
  "digit_val c = length (takeWhile (\<lambda>d. d \<noteq> c) ''0123456789'')"

datatype parse_error = ErrSyntax | ErrRange

fun ParseUint_digits :: "nat \<Rightarrow> string \<Rightarrow> nat \<times> parse_error option" where
  \<comment> \<open>the loop of \<open>strconv.ParseUint(s, 10, 64)\<close> over the bytes of \<open>s\<close>:
      \<open>cutoff\<close> is \<open>maxUint64 / 10 + 1\<close>, and an overflow ends the loop before the bytes
      after it are read\<close>
  "ParseUint_digits n [] = (n, None)"
| "ParseUint_digits n (c # cs) =
     (if \<not> is_digit c then (0, Some ErrSyntax)
      else if 1844674407370955162 \<le> n then (18446744073709551615, Some ErrRange)
      else if 18446744073709551615 < n * 10 + digit_val c
        then (18446744073709551615, Some ErrRange)
      else ParseUint_digits (n * 10 + digit_val c) cs)"

definition strconv_ParseUint :: "string \<Rightarrow> nat \<times> parse_error option" where
  "strconv_ParseUint s = (if s = [] then (0, Some ErrSyntax) else ParseUint_digits 0 s)"

definition strconv_ParseInt :: "string \<Rightarrow> int \<times> parse_error option" where
  \<comment> \<open>\<open>strconv.ParseInt(s, 10, 64)\<close>: the sign is picked off, the rest goes to
      \<open>ParseUint\<close>; 0 on a syntax error, the nearest \<open>int64\<close> on a range error\<close>
  "strconv_ParseInt s =
     (if s = [] then (0, Some ErrSyntax)
      else
        (let neg = (hd s = CHR ''-'');
             ds = (if hd s = CHR ''+'' \<or> hd s = CHR ''-'' then tl s else s);
             (un, err) = strconv_ParseUint ds
         in if err = Some ErrSyntax then (0, err)
            else if \<not> neg \<and> 2 ^ 63 \<le> un then (2 ^ 63 - 1, Some ErrRange)
            else if neg \<and> 2 ^ 63 < un then (- (2 ^ 63), Some ErrRange)
            else (if neg then - int un else int un, None)))"

fun digits :: "nat \<Rightarrow> string" where
  "digits n =
     (if n < 10 then [''0123456789'' ! n]
      else digits (n div 10) @ [''0123456789'' ! (n mod 10)])"

definition Sprintf_d :: "int \<Rightarrow> string" where
  \<comment> \<open>\<open>fmt.Sprintf("%d", i)\<close>\<close>
  "Sprintf_d i = (if i < 0 then CHR ''-'' # digits (nat (- i)) else digits (nat i))"

subsection \<open>The result record\<close>

text \<open>
  \<open>pkg.MeasureResult\<close>, with the fields \<open>MeasureServices\<close> reads and writes: the sum
  of every stage's duration, the \<open>overallReady\<close> samples, the four classification
  counters, the statistics and the platform's versions.
\<close>

record MeasureSums =
  SvcConfigurationsReadySum :: float64
  RevisionReadySum :: float64
  DeploymentCreatedSum :: float64
  PodScheduledSum :: float64
  ContainersReadySum :: float64
  QueueProxyStartedSum :: float64
  UserContrainerStartedSum :: float64
  SvcRoutesReadySum :: float64
  KpaActiveSum :: float64
  SksReadySum :: float64
  SksActivatorEndpointsPopulatedSum :: float64
  SksEndpointsPopulatedSum :: float64
  IngressReadySum :: float64
  IngressNetworkConfiguredSum :: float64
  IngressLoadBalancerReadySum :: float64
  SvcReadySum :: float64

record MeasureCounts =
  ReadyCount :: int
  NotReadyCount :: int
  NotFoundCount :: int
  FailCount :: int

record MeasureStats =
  AverageSvcConfigurationReadySum :: float64
  AverageRevisionReadySum :: float64
  AverageDeploymentCreatedSum :: float64
  AveragePodScheduledSum :: float64
  AverageContainersReadySum :: float64
  AverageQueueProxyStartedSum :: float64
  AverageUserContrainerStartedSum :: float64
  AverageKpaActiveSum :: float64
  AverageSksReadySum :: float64
  AverageSksActivatorEndpointsPopulatedSum :: float64
  AverageSksEndpointsPopulatedSum :: float64
  AverageSvcRoutesReadySum :: float64
  AverageIngressReadySum :: float64
  AverageIngressNetworkConfiguredSum :: float64
  AverageIngressLoadBalancerReadySum :: float64
  OverallTotal :: float64
  OverallAverage :: float64
  OverallMedian :: float64
  OverallMin :: float64
  OverallMax :: float64
  P50 :: float64
  P90 :: float64
  P95 :: float64
  P98 :: float64
  P99 :: float64

record KnativeVersions =
  ServingVersion :: string
  EventingVersion :: string
  IngressController :: string
  IngressVersion :: string

record MeasureResult =
  Sums :: MeasureSums
  SvcReadyTime :: "float64 list"
  Service :: MeasureCounts
  Result :: MeasureStats
  KnativeInfo :: KnativeVersions

definition zeroSums :: MeasureSums where
  "zeroSums =
     \<lparr>SvcConfigurationsReadySum = 0, RevisionReadySum = 0, DeploymentCreatedSum = 0,
      PodScheduledSum = 0, ContainersReadySum = 0, QueueProxyStartedSum = 0,
      UserContrainerStartedSum = 0, SvcRoutesReadySum = 0, KpaActiveSum = 0,
      SksReadySum = 0, SksActivatorEndpointsPopulatedSum = 0, SksEndpointsPopulatedSum = 0,
      IngressReadySum = 0, IngressNetworkConfiguredSum = 0, IngressLoadBalancerReadySum = 0,
      SvcReadySum = 0\<rparr>"

definition zeroCounts :: MeasureCounts where
  "zeroCounts = \<lparr>ReadyCount = 0, NotReadyCount = 0, NotFoundCount = 0, FailCount = 0\<rparr>"

definition zeroStats :: MeasureStats where
  "zeroStats =
     \<lparr>AverageSvcConfigurationReadySum = 0, AverageRevisionReadySum = 0,
      AverageDeploymentCreatedSum = 0, AveragePodScheduledSum = 0,
      AverageContainersReadySum = 0, AverageQueueProxyStartedSum = 0,
      AverageUserContrainerStartedSum = 0, AverageKpaActiveSum = 0, AverageSksReadySum = 0,
      AverageSksActivatorEndpointsPopulatedSum = 0, AverageSksEndpointsPopulatedSum = 0,
      AverageSvcRoutesReadySum = 0, AverageIngressReadySum = 0,
      AverageIngressNetworkConfiguredSum = 0, AverageIngressLoadBalancerReadySum = 0,
      OverallTotal = 0, OverallAverage = 0, OverallMedian = 0, OverallMin = 0,
      OverallMax = 0, P50 = 0, P90 = 0, P95 = 0, P98 = 0, P99 = 0\<rparr>"

definition zeroResult :: MeasureResult where
  \<comment> \<open>\<open>pkg.MeasureResult{}\<close>\<close>
  "zeroResult =
     \<lparr>Sums = zeroSums, SvcReadyTime = [], Service = zeroCounts, Result = zeroStats,
      KnativeInfo = \<lparr>ServingVersion = [], EventingVersion = [], IngressController = [],
                     IngressVersion = []\<rparr>\<rparr>"

subsection \<open>The platform\<close>

text \<open>
  The objects the clients return, with the fields the engine reads. A condition that
  \<open>GetCondition\<close> does not find is \<open>None\<close> (the nil pointer the code then
  dereferences), and so is the \<open>State.Running\<close> of a container that is not running.
  A lookup returns the object or an error. Of an error the engine reads the message,
  \<open>err.Error()\<close>, and nothing else; the reason of its status, which
  \<open>apierrors.ReasonForError\<close> returns (empty for an error that carries no status), is
  kept beside the message to tell what kind of error it is.
\<close>

record lookup_error =
  err_Error :: string
  err_Reason :: string

record KService =
  svc_CreationTimestamp :: time
  svc_IsReady :: bool
  svc_ConfigurationsReady :: "time option"
  svc_RoutesReady :: "time option"

record Configuration =
  LatestReadyRevisionName :: string

record Revision =
  rev_CreationTimestamp :: time
  rev_Ready :: "time option"

record PodCondition =
  cond_Type :: string
  cond_LastTransitionTime :: time

record ContainerStatus =
  cs_Name :: string
  cs_Running_StartedAt :: "time option"

record Pod =
  pod_CreationTimestamp :: time
  pod_Conditions :: "PodCondition list"
  pod_ContainerStatuses :: "ContainerStatus list"

record Deployment =
  dep_CreationTimestamp :: time

record PodAutoscaler =
  kpa_CreationTimestamp :: time
  kpa_Active :: "time option"

record ServerlessService =
  sks_CreationTimestamp :: time
  sks_ActivatorEndpointsPopulated :: "time option"
  sks_EndpointsPopulated :: "time option"
  sks_Ready :: "time option"

record Ingress =
  ing_CreationTimestamp :: time
  ing_NetworkConfigured :: "time option"
  ing_LoadBalancerReady :: "time option"

text \<open>Every lookup takes the namespace first, then the name (or the label selector).\<close>

record platform =
  Services_Get :: "string \<Rightarrow> string \<Rightarrow> lookup_error + KService"
  Configurations_Get :: "string \<Rightarrow> string \<Rightarrow> lookup_error + Configuration"
  Revisions_Get :: "string \<Rightarrow> string \<Rightarrow> lookup_error + Revision"
  Pods_List :: "string \<Rightarrow> string \<Rightarrow> lookup_error + Pod list"
  Deployments_Get :: "string \<Rightarrow> string \<Rightarrow> lookup_error + Deployment"
  PodAutoscalers_Get :: "string \<Rightarrow> string \<Rightarrow> lookup_error + PodAutoscaler"
  ServerlessServices_Get :: "string \<Rightarrow> string \<Rightarrow> lookup_error + ServerlessService"
  Ingresses_Get :: "string \<Rightarrow> string \<Rightarrow> lookup_error + Ingress"

fun getPodCondition :: "PodCondition list \<Rightarrow> string \<Rightarrow> PodCondition option" where
  \<comment> \<open>\<open>None\<close> is the source's \<open>(-1, nil)\<close>; the index it returns otherwise is only
      compared with -1\<close>
  "getPodCondition [] conditionType = None"
| "getPodCondition (c # cs) conditionType =
     (if cond_Type c = conditionType then Some c else getPodCondition cs conditionType)"

fun getContainerStatus :: "ContainerStatus list \<Rightarrow> string \<Rightarrow> ContainerStatus option" where
  \<comment> \<open>\<open>None\<close> is the source's \<open>(nil, false)\<close>\<close>
  "getContainerStatus [] name = None"
| "getContainerStatus (s # ss) name =
     (if cs_Name s = name then Some s else getContainerStatus ss name)"

subsection \<open>One worker\<close>

text \<open>
  The variables of one worker goroutine. The seven durations are declared before the
  loop over the channel, so they keep their values from one item to the next; every
  other variable of the loop body is declared inside it.
\<close>

record worker_vars =
  currentMeasureResult :: MeasureResult
  svcConfigurationsReadyDuration :: duration
  svcReadyDuration :: duration
  svcRoutesReadyDuration :: duration
  podScheduledDuration :: duration
  containersReadyDuration :: duration
  queueProxyStartedDuration :: duration
  userContrainerStartedDuration :: duration

text \<open>What the workers share: the two tables (appended under the lock), the slice of
  per-worker results (each worker writes its own slot) and the wait group's counter.\<close>

record shared =
  rows :: "string list list"
  rawRows :: "string list list"
  workerMeasureResults :: "MeasureResult list"
  group :: int

datatype fault = NilPointerDereference | IndexOutOfRange | MakesliceLenOutOfRange

definition deref :: "'a option \<Rightarrow> ('a \<Rightarrow> fault + 'b) \<Rightarrow> fault + 'b" where
  "deref p k = (case p of None \<Rightarrow> Inl NilPointerDereference | Some x \<Rightarrow> k x)"

definition incReady :: "worker_vars \<Rightarrow> worker_vars" where
  "incReady v =
     v\<lparr>currentMeasureResult := (currentMeasureResult v)
        \<lparr>Service := (Service (currentMeasureResult v))
           \<lparr>ReadyCount := ReadyCount (Service (currentMeasureResult v)) + 1\<rparr>\<rparr>\<rparr>"

definition incNotReady :: "worker_vars \<Rightarrow> worker_vars" where
  "incNotReady v =
     v\<lparr>currentMeasureResult := (currentMeasureResult v)
        \<lparr>Service := (Service (currentMeasureResult v))
           \<lparr>NotReadyCount := NotReadyCount (Service (currentMeasureResult v)) + 1\<rparr>\<rparr>\<rparr>"

definition incNotFound :: "worker_vars \<Rightarrow> worker_vars" where
  "incNotFound v =
     v\<lparr>currentMeasureResult := (currentMeasureResult v)
        \<lparr>Service := (Service (currentMeasureResult v))
           \<lparr>NotFoundCount := NotFoundCount (Service (currentMeasureResult v)) + 1\<rparr>\<rparr>\<rparr>"

definition incFail :: "worker_vars \<Rightarrow> worker_vars" where
  "incFail v =
     v\<lparr>currentMeasureResult := (currentMeasureResult v)
        \<lparr>Service := (Service (currentMeasureResult v))
           \<lparr>FailCount := FailCount (Service (currentMeasureResult v)) + 1\<rparr>\<rparr>\<rparr>"

definition next_item :: "nat \<Rightarrow> worker_vars \<Rightarrow> shared \<Rightarrow> fault + worker_vars \<times> shared" where
  \<comment> \<open>\<open>workerMeasureResults[index] = currentMeasureResult; group.Done(); continue\<close>\<close>
  "next_item index v S =
     Inr (v, S\<lparr>workerMeasureResults :=
                  (workerMeasureResults S)[index := currentMeasureResult v],
                group := group S - 1\<rparr>)"

text \<open>
  The block over the first pod of the revision. It leaves the item as not ready when a
  condition or a container status is missing, and otherwise yields the five pod instants.
  With no pod the instants are the zero time and no duration is assigned.
\<close>

record pod_times =
  podCreatedTime :: time
  podScheduledTime :: time
  containersReadyTime :: time
  queueProxyStartedTime :: time
  userContrainerStartedTime :: time

datatype pod_outcome = GiveUp worker_vars | Measured worker_vars pod_times

definition pod_stage :: "Pod list \<Rightarrow> worker_vars \<Rightarrow> fault + pod_outcome" where
  "pod_stage Items v =
     (case Items of
        [] \<Rightarrow>
          Inr (Measured v
            \<lparr>podCreatedTime = zeroTime, podScheduledTime = zeroTime,
             containersReadyTime = zeroTime, queueProxyStartedTime = zeroTime,
             userContrainerStartedTime = zeroTime\<rparr>)
      | pod # _ \<Rightarrow>
          (case getPodCondition (pod_Conditions pod) ''PodScheduled'' of
             None \<Rightarrow> Inr (GiveUp v)
           | Some PodScheduledCdt \<Rightarrow>
          (case getPodCondition (pod_Conditions pod) ''ContainersReady'' of
             None \<Rightarrow> Inr (GiveUp v)
           | Some containersReadyCdt \<Rightarrow>
          (let created = pod_CreationTimestamp pod;
               scheduled = cond_LastTransitionTime PodScheduledCdt;
               ready = cond_LastTransitionTime containersReadyCdt;
               v1 = v\<lparr>podScheduledDuration := Sub scheduled created,
                       containersReadyDuration := Sub ready created\<rparr>
           in case getContainerStatus (pod_ContainerStatuses pod) ''queue-proxy'' of
                None \<Rightarrow> Inr (GiveUp v1)
              | Some queueProxyStatus \<Rightarrow>
             deref (cs_Running_StartedAt queueProxyStatus) (\<lambda>queueProxyStarted.
             case getContainerStatus (pod_ContainerStatuses pod) ''user-container'' of
                None \<Rightarrow> Inr (GiveUp v1)
              | Some userContrainerStatus \<Rightarrow>
             deref (cs_Running_StartedAt userContrainerStatus) (\<lambda>userContrainerStarted.
             Inr (Measured
               (v1\<lparr>queueProxyStartedDuration := Sub queueProxyStarted created,
                    userContrainerStartedDuration := Sub userContrainerStarted created\<rparr>)
               \<lparr>podCreatedTime = created, podScheduledTime = scheduled,
                containersReadyTime = ready, queueProxyStartedTime = queueProxyStarted,
                userContrainerStartedTime = userContrainerStarted\<rparr>)))))))"

definition cell :: "duration \<Rightarrow> string" where
  \<comment> \<open>\<open>fmt.Sprintf("%d", int(d.Seconds()))\<close>\<close>
  "cell d = Sprintf_d (int_of_f64 (Seconds d))"

definition addSums ::
  "MeasureSums \<Rightarrow> duration \<Rightarrow> duration \<Rightarrow> duration \<Rightarrow> duration \<Rightarrow> duration \<Rightarrow> duration \<Rightarrow>
   duration \<Rightarrow> duration \<Rightarrow> duration \<Rightarrow> duration \<Rightarrow> duration \<Rightarrow> duration \<Rightarrow> duration \<Rightarrow>
   duration \<Rightarrow> duration \<Rightarrow> duration \<Rightarrow> MeasureSums" where
  \<comment> \<open>the sixteen \<open>+=\<close> of a ready item\<close>
  "addSums s svcConfigurationsReady revisionReady deploymentCreated podScheduled
       containersReady queueProxyStarted userContrainerStarted svcRoutesReady kpaActive
       sksReady sksActivatorEndpointsPopulated sksEndpointsPopulated ingressReady
       ingressNetworkConfigured ingressLoadBalancerReady svcReady =
     \<lparr>SvcConfigurationsReadySum =
        f64_add (SvcConfigurationsReadySum s) (Seconds svcConfigurationsReady),
      RevisionReadySum = f64_add (RevisionReadySum s) (Seconds revisionReady),
      DeploymentCreatedSum = f64_add (DeploymentCreatedSum s) (Seconds deploymentCreated),
      PodScheduledSum = f64_add (PodScheduledSum s) (Seconds podScheduled),
      ContainersReadySum = f64_add (ContainersReadySum s) (Seconds containersReady),
      QueueProxyStartedSum = f64_add (QueueProxyStartedSum s) (Seconds queueProxyStarted),
      UserContrainerStartedSum =
        f64_add (UserContrainerStartedSum s) (Seconds userContrainerStarted),
      SvcRoutesReadySum = f64_add (SvcRoutesReadySum s) (Seconds svcRoutesReady),
      KpaActiveSum = f64_add (KpaActiveSum s) (Seconds kpaActive),
      SksReadySum = f64_add (SksReadySum s) (Seconds sksReady),
      SksActivatorEndpointsPopulatedSum =
        f64_add (SksActivatorEndpointsPopulatedSum s) (Seconds sksActivatorEndpointsPopulated),
      SksEndpointsPopulatedSum =
        f64_add (SksEndpointsPopulatedSum s) (Seconds sksEndpointsPopulated),
      IngressReadySum = f64_add (IngressReadySum s) (Seconds ingressReady),
      IngressNetworkConfiguredSum =
        f64_add (IngressNetworkConfiguredSum s) (Seconds ingressNetworkConfigured),
      IngressLoadBalancerReadySum =
        f64_add (IngressLoadBalancerReadySum s) (Seconds ingressLoadBalancerReady),
      SvcReadySum = f64_add (SvcReadySum s) (Seconds svcReady)\<rparr>"

text \<open>
  One iteration of the loop over the channel: worker \<open>index\<close>, with its variables
  \<open>v\<close>, handles the item \<open>j\<close> against the platform \<open>P\<close>. It returns the worker's
  variables and the shared state after the iteration, or the panic that ends the
  process. \<open>timeString\<close> is \<open>Time.String\<close>.
\<close>

definition iteration ::
  "(time \<Rightarrow> string) \<Rightarrow> platform \<Rightarrow> nat \<Rightarrow> worker_vars \<Rightarrow> string list \<Rightarrow> shared \<Rightarrow>
   fault + worker_vars \<times> shared" where
  "iteration timeString P index v j S =
     (if length j \<noteq> 2 then next_item index (incFail v) S
      else
      (let svc = j ! 0; svcNs = j ! 1 in
      (case Services_Get P svcNs svc of
        Inl err \<Rightarrow>
          (if strings_Contains (err_Error err) ''not found'' then next_item index (incNotFound v) S
           else next_item index (incFail v) S)
      | Inr svcIns \<Rightarrow>
      (if \<not> svc_IsReady svcIns then next_item index (incNotReady v) S
      else
      (let svcCreatedTime = svc_CreationTimestamp svcIns in
      deref (svc_ConfigurationsReady svcIns) (\<lambda>svcConfigurationsReady.
      deref (svc_RoutesReady svcIns) (\<lambda>svcRoutesReady.
      (let v1 = v\<lparr>svcConfigurationsReadyDuration := Sub svcConfigurationsReady svcCreatedTime,
                  svcRoutesReadyDuration := Sub svcRoutesReady svcCreatedTime,
                  svcReadyDuration := Sub svcRoutesReady svcCreatedTime\<rparr> in
      (case Configurations_Get P svcNs svc of
        Inl err \<Rightarrow> next_item index (incNotReady v1) S
      | Inr cfgIns \<Rightarrow>
      (let revisionName = LatestReadyRevisionName cfgIns in
      (case Revisions_Get P svcNs revisionName of
        Inl err \<Rightarrow> next_item index (incNotReady v1) S
      | Inr revisionIns \<Rightarrow>
      (let revisionCreatedTime = rev_CreationTimestamp revisionIns in
      deref (rev_Ready revisionIns) (\<lambda>revisionReadyTime.
      (let revisionReadyDuration = Sub revisionReadyTime revisionCreatedTime;
          label = ''serving.knative.dev/revision='' @ revisionName in
      (case Pods_List P svcNs label of
        Inl err \<Rightarrow> next_item index (incNotReady v1) S
      | Inr podList \<Rightarrow>
      (case Deployments_Get P svcNs (revisionName @ ''-deployment'') of
        Inl err \<Rightarrow> next_item index (incNotReady v1) S
      | Inr deploymentIns \<Rightarrow>
      (let deploymentCreatedTime = dep_CreationTimestamp deploymentIns;
          deploymentCreatedDuration = Sub deploymentCreatedTime revisionCreatedTime in
      (case pod_stage podList v1 of
        Inl f \<Rightarrow> Inl f
      | Inr (GiveUp v2) \<Rightarrow> next_item index (incNotReady v2) S
      | Inr (Measured v2 pt) \<Rightarrow>
      (case PodAutoscalers_Get P svcNs revisionName of
        Inl err \<Rightarrow> next_item index (incNotReady v2) S
      | Inr kpaIns \<Rightarrow>
      (let kpaCreatedTime = kpa_CreationTimestamp kpaIns in
      deref (kpa_Active kpaIns) (\<lambda>kpaActiveTime.
      (let kpaActiveDuration = Sub kpaActiveTime kpaCreatedTime in
      (case ServerlessServices_Get P svcNs revisionName of
        Inl err \<Rightarrow> next_item index (incNotReady v2) S
      | Inr sksIns \<Rightarrow>
      (let sksCreatedTime = sks_CreationTimestamp sksIns in
      deref (sks_ActivatorEndpointsPopulated sksIns) (\<lambda>sksActivatorEndpointsPopulatedTime.
      deref (sks_EndpointsPopulated sksIns) (\<lambda>sksEndpointsPopulatedTime.
      deref (sks_Ready sksIns) (\<lambda>sksReadyTime.
      (let sksActivatorEndpointsPopulatedDuration =
            Sub sksActivatorEndpointsPopulatedTime sksCreatedTime;
          sksEndpointsPopulatedDuration = Sub sksEndpointsPopulatedTime sksCreatedTime;
          sksReadyDuration = Sub sksReadyTime sksCreatedTime in
      (case Ingresses_Get P svcNs svc of
        Inl err \<Rightarrow> next_item index (incNotReady v2) S
      | Inr ingressIns \<Rightarrow>
      (let ingressCreatedTime = ing_CreationTimestamp ingressIns in
      deref (ing_NetworkConfigured ingressIns) (\<lambda>ingressNetworkConfiguredTime.
      deref (ing_LoadBalancerReady ingressIns) (\<lambda>ingressLoadBalancerReadyTime.
      (let ingressNetworkConfiguredDuration =
            Sub ingressNetworkConfiguredTime ingressCreatedTime;
          ingressLoadBalancerReadyDuration =
            Sub ingressLoadBalancerReadyTime ingressNetworkConfiguredTime;
          ingressReadyDuration = Sub ingressLoadBalancerReadyTime ingressCreatedTime;
          v3 = incReady v2;
          S1 = S\<lparr>rows := rows S @
                 [[svc, svcNs,
                   cell (svcConfigurationsReadyDuration v3),
                   cell revisionReadyDuration,
                   cell deploymentCreatedDuration,
                   cell (podScheduledDuration v3),
                   cell (containersReadyDuration v3),
                   cell (queueProxyStartedDuration v3),
                   cell (userContrainerStartedDuration v3),
                   cell (svcRoutesReadyDuration v3),
                   cell kpaActiveDuration,
                   cell sksReadyDuration,
                   cell sksActivatorEndpointsPopulatedDuration,
                   cell sksEndpointsPopulatedDuration,
                   cell ingressReadyDuration,
                   cell ingressNetworkConfiguredDuration,
                   cell ingressLoadBalancerReadyDuration,
                   cell (svcReadyDuration v3)]],
               rawRows := rawRows S @
                 [[svc, svcNs,
                   timeString svcCreatedTime,
                   timeString svcConfigurationsReady,
                   timeString revisionCreatedTime,
                   timeString revisionReadyTime,
                   timeString deploymentCreatedTime,
                   timeString (podCreatedTime pt),
                   timeString (podScheduledTime pt),
                   timeString (containersReadyTime pt),
                   timeString (queueProxyStartedTime pt),
                   timeString (userContrainerStartedTime pt),
                   timeString svcRoutesReady,
                   timeString kpaCreatedTime,
                   timeString kpaActiveTime,
                   timeString sksCreatedTime,
                   timeString sksActivatorEndpointsPopulatedTime,
                   timeString sksEndpointsPopulatedTime,
                   timeString ingressCreatedTime,
                   timeString ingressNetworkConfiguredTime,
                   timeString ingressLoadBalancerReadyTime]]\<rparr>;
          r = currentMeasureResult v3;
          v4 = v3\<lparr>currentMeasureResult := r
                 \<lparr>Sums := addSums (Sums r)
                    (svcConfigurationsReadyDuration v3) revisionReadyDuration
                    deploymentCreatedDuration (podScheduledDuration v3)
                    (containersReadyDuration v3) (queueProxyStartedDuration v3)
                    (userContrainerStartedDuration v3) (svcRoutesReadyDuration v3)
                    kpaActiveDuration sksReadyDuration sksActivatorEndpointsPopulatedDuration
                    sksEndpointsPopulatedDuration ingressReadyDuration
                    ingressNetworkConfiguredDuration ingressLoadBalancerReadyDuration
                    (svcReadyDuration v3),
                  SvcReadyTime := SvcReadyTime r @ [Seconds (svcReadyDuration v3)]\<rparr>\<rparr>
      in next_item index v4 S1)
      ))))))))))))))))))))))))))))))))"

subsection \<open>The pool\<close>

text \<open>
  The coordinator sends the items in order over an unbuffered channel, adding one to the
  wait group before each send; a worker that is blocked in the receive takes the item,
  runs one iteration and calls \<open>Done\<close>. A run is a sequence of events: \<open>Send w\<close>,
  worker \<open>w\<close> receives the next item; \<open>Finish w P\<close>, worker \<open>w\<close> completes the
  iteration for the item it holds, having read the answers of \<open>P\<close>. An iteration
  touches the variables of its own worker, its own slot of \<open>workerMeasureResults\<close>
  and, under the lock, the two tables, so its effect is taken at its completion. The
  order of the \<open>Finish\<close> events is the order in which the rows are appended.
\<close>

record engine =
  pending :: "string list list"
  receiving :: "string list option list"
  vars :: "worker_vars list"
  store :: shared

datatype event = Send nat | Finish nat platform

datatype 'a run = Disabled | Panic fault | Run 'a

definition zeroVars :: worker_vars where
  "zeroVars =
     \<lparr>currentMeasureResult = zeroResult, svcConfigurationsReadyDuration = 0,
      svcReadyDuration = 0, svcRoutesReadyDuration = 0, podScheduledDuration = 0,
      containersReadyDuration = 0, queueProxyStartedDuration = 0,
      userContrainerStartedDuration = 0\<rparr>"

definition start :: "nat \<Rightarrow> string list list \<Rightarrow> engine" where
  "start n svcNamespacedName =
     \<lparr>pending = svcNamespacedName, receiving = replicate n None,
      vars = replicate n zeroVars,
      store = \<lparr>rows = [], rawRows = [], workerMeasureResults = replicate n zeroResult,
               group = 0\<rparr>\<rparr>"

fun step :: "(time \<Rightarrow> string) \<Rightarrow> event \<Rightarrow> engine \<Rightarrow> engine run" where
  "step timeString (Send w) E =
     (case pending E of
        [] \<Rightarrow> Disabled
      | item # rest \<Rightarrow>
          if w < length (receiving E) \<and> receiving E ! w = None
          then Run (E\<lparr>pending := rest, receiving := (receiving E)[w := Some item],
                      store := (store E)\<lparr>group := group (store E) + 1\<rparr>\<rparr>)
          else Disabled)"
| "step timeString (Finish w P) E =
     (if w < length (receiving E)
      then (case receiving E ! w of
              None \<Rightarrow> Disabled
            | Some j \<Rightarrow>
                (case iteration timeString P w (vars E ! w) j (store E) of
                   Inl f \<Rightarrow> Panic f
                 | Inr (v, S) \<Rightarrow>
                     Run (E\<lparr>receiving := (receiving E)[w := None],
                            vars := (vars E)[w := v], store := S\<rparr>)))
      else Disabled)"

fun exec :: "(time \<Rightarrow> string) \<Rightarrow> event list \<Rightarrow> engine \<Rightarrow> engine run" where
  "exec timeString [] E = Run E"
| "exec timeString (e # es) E =
     (case step timeString e E of
        Disabled \<Rightarrow> Disabled
      | Panic f \<Rightarrow> Panic f
      | Run E' \<Rightarrow> exec timeString es E')"

subsection \<open>The merge\<close>

definition addWorker :: "MeasureResult \<Rightarrow> MeasureResult \<Rightarrow> MeasureResult" where
  \<comment> \<open>the body of the loop over \<open>workerMeasureResults\<close>\<close>
  "addWorker m w =
     m\<lparr>Sums :=
         \<lparr>SvcConfigurationsReadySum =
            f64_add (SvcConfigurationsReadySum (Sums m)) (SvcConfigurationsReadySum (Sums w)),
          RevisionReadySum = f64_add (RevisionReadySum (Sums m)) (RevisionReadySum (Sums w)),
          DeploymentCreatedSum =
            f64_add (DeploymentCreatedSum (Sums m)) (DeploymentCreatedSum (Sums w)),
          PodScheduledSum = f64_add (PodScheduledSum (Sums m)) (PodScheduledSum (Sums w)),
          ContainersReadySum =
            f64_add (ContainersReadySum (Sums m)) (ContainersReadySum (Sums w)),
          QueueProxyStartedSum =
            f64_add (QueueProxyStartedSum (Sums m)) (QueueProxyStartedSum (Sums w)),
          UserContrainerStartedSum =
            f64_add (UserContrainerStartedSum (Sums m)) (UserContrainerStartedSum (Sums w)),
          SvcRoutesReadySum = f64_add (SvcRoutesReadySum (Sums m)) (SvcRoutesReadySum (Sums w)),
          KpaActiveSum = f64_add (KpaActiveSum (Sums m)) (KpaActiveSum (Sums w)),
          SksReadySum = f64_add (SksReadySum (Sums m)) (SksReadySum (Sums w)),
          SksActivatorEndpointsPopulatedSum =
            f64_add (SksActivatorEndpointsPopulatedSum (Sums m))
              (SksActivatorEndpointsPopulatedSum (Sums w)),
          SksEndpointsPopulatedSum =
            f64_add (SksEndpointsPopulatedSum (Sums m)) (SksEndpointsPopulatedSum (Sums w)),
          IngressReadySum = f64_add (IngressReadySum (Sums m)) (IngressReadySum (Sums w)),
          IngressNetworkConfiguredSum =
            f64_add (IngressNetworkConfiguredSum (Sums m)) (IngressNetworkConfiguredSum (Sums w)),
          IngressLoadBalancerReadySum =
            f64_add (IngressLoadBalancerReadySum (Sums m)) (IngressLoadBalancerReadySum (Sums w)),
          SvcReadySum = f64_add (SvcReadySum (Sums m)) (SvcReadySum (Sums w))\<rparr>,
       SvcReadyTime := SvcReadyTime m @ SvcReadyTime w,
       Service :=
         \<lparr>ReadyCount = ReadyCount (Service m) + ReadyCount (Service w),
          NotReadyCount = NotReadyCount (Service m) + NotReadyCount (Service w),
          NotFoundCount = NotFoundCount (Service m) + NotFoundCount (Service w),
          FailCount = FailCount (Service m) + FailCount (Service w)\<rparr>\<rparr>"

definition mergeWorkers :: "MeasureResult list \<Rightarrow> MeasureResult" where
  \<comment> \<open>\<open>measureFinalResult\<close> after the loop, from \<open>pkg.MeasureResult{}\<close>\<close>
  "mergeWorkers ws = foldl addWorker zeroResult ws"

subsection \<open>\<open>sortSlice\<close>\<close>

text \<open>
  The comparison that \<open>sortSlice\<close> hands to \<open>sort.Slice\<close>: each name is split at
  every dash, the second piece is parsed and the error of the parse is dropped. A name
  with no dash has one piece only, and reading the second one panics.
\<close>

definition sort_index :: "string list \<Rightarrow> fault + int" where
  "sort_index row =
     (case row of
        [] \<Rightarrow> Inl IndexOutOfRange
      | name # _ \<Rightarrow>
          (case strings_Split name CHR ''-'' of
             a0 # a1 # _ \<Rightarrow> Inr (fst (strconv_ParseInt a1))
           | _ \<Rightarrow> Inl IndexOutOfRange))"

definition less_rows :: "string list \<Rightarrow> string list \<Rightarrow> fault + bool" where
  "less_rows ri rj =
     (case sort_index ri of
        Inl f \<Rightarrow> Inl f
      | Inr indexa \<Rightarrow>
          (case sort_index rj of
             Inl f \<Rightarrow> Inl f
           | Inr indexb \<Rightarrow> Inr (indexa < indexb)))"

type_synonym sorter =
  "(string list \<Rightarrow> string list \<Rightarrow> fault + bool) \<Rightarrow> string list list \<Rightarrow> fault + string list list"

definition sortSlice :: "sorter \<Rightarrow> string list list \<Rightarrow> fault + string list list" where
  "sortSlice sort_Slice table = sort_Slice less_rows table"

text \<open>
  What \<open>sort.Slice\<close> promises: when the comparison is that of some key, the result is
  the same rows in ascending order of the key. It promises no order among rows of one
  key (the sort is not stable).
\<close>

definition sort_Slice_contract :: "sorter \<Rightarrow> bool" where
  "sort_Slice_contract srt =
     (\<forall>cmp xs. \<forall>key :: string list \<Rightarrow> int.
        (\<forall>a \<in> set xs. \<forall>b \<in> set xs. cmp a b = Inr (key a < key b)) \<longrightarrow>
        (\<exists>ys. srt cmp xs = Inr ys \<and> mset ys = mset xs \<and> sorted (map key ys)))"

text \<open>
  The insertion sort that \<open>sort.Slice\<close> runs on a short slice: each element moves
  left while it is less than its left neighbour. The sorted prefix is kept in reverse.
\<close>

fun insert_left ::
  "('a \<Rightarrow> 'a \<Rightarrow> fault + bool) \<Rightarrow> 'a \<Rightarrow> 'a list \<Rightarrow> fault + 'a list" where
  "insert_left cmp x [] = Inr [x]"
| "insert_left cmp x (y # ys) =
     (case cmp x y of
        Inl f \<Rightarrow> Inl f
      | Inr b \<Rightarrow>
          if b then (case insert_left cmp x ys of
                       Inl f \<Rightarrow> Inl f
                     | Inr zs \<Rightarrow> Inr (y # zs))
          else Inr (x # y # ys))"

fun insertion_loop ::
  "('a \<Rightarrow> 'a \<Rightarrow> fault + bool) \<Rightarrow> 'a list \<Rightarrow> 'a list \<Rightarrow> fault + 'a list" where
  "insertion_loop cmp prefix [] = Inr (rev prefix)"
| "insertion_loop cmp prefix (x # xs) =
     (case insert_left cmp x prefix of
        Inl f \<Rightarrow> Inl f
      | Inr prefix' \<Rightarrow> insertion_loop cmp prefix' xs)"

definition insertionSort :: "('a \<Rightarrow> 'a \<Rightarrow> fault + bool) \<Rightarrow> 'a list \<Rightarrow> fault + 'a list" where
  "insertionSort cmp xs = insertion_loop cmp [] xs"

subsection \<open>The report\<close>

text \<open>
  The library functions and the collaborators of the same package that the engine
  calls: \<open>sort.Slice\<close>, \<open>Time.String\<close>, the four functions of the statistics package,
  and the maps that \<open>GetKnativeVersion\<close> and \<open>GetIngressController\<close> return (a key
  that is missing reads as the empty string).
\<close>

record libs =
  sort_Slice :: sorter
  Time_String :: "time \<Rightarrow> string"
  stats_Median :: "float64 list \<Rightarrow> float64"
  stats_Min :: "float64 list \<Rightarrow> float64"
  stats_Max :: "float64 list \<Rightarrow> float64"
  stats_Percentile :: "float64 list \<Rightarrow> float64 \<Rightarrow> float64"
  knativeVersion :: "string \<Rightarrow> string"
  ingressInfo :: "string \<Rightarrow> string"

text \<open>
  What a run hands to the writers and the console. With a ready service: the raw
  table and the table (each under its header) for the CSV files and the final result
  for the JSON file; what this branch prints besides (the same numbers, and the share
  of each count in the total) is left out. With none: the versions, the total and the
  four counts, printed.
\<close>

datatype report =
  Measurement "string list list" "string list list" MeasureResult
| CountsOnly KnativeVersions int int int int int

datatype outcome =
  Failed string | Panicked fault | NotARun | Waiting | Completed report

definition rows_header :: "string list" where
  "rows_header =
     [''svc_name'', ''svc_namespace'', ''configuration_ready'', ''revision_ready'',
      ''deployment_created'', ''pod_scheduled'', ''containers_ready'',
      ''queue-proxy_started'', ''user-container_started'', ''route_ready'', ''kpa_active'',
      ''sks_ready'', ''sks_activator_endpoints_populated'', ''sks_endpoints_populated'',
      ''ingress_ready'', ''ingress_config_ready'', ''ingress_lb_ready'', ''overall_ready'']"

definition rawRows_header :: "string list" where
  "rawRows_header =
     [''svc_name'', ''svc_namespace'', ''svc_created'', ''configuration_ready'',
      ''revision_created'', ''revision_ready'', ''deployment_created'', ''pod_created'',
      ''pod_scheduled'', ''containers_ready'', ''queue-proxy_started'',
      ''user-container_started'', ''route_ready'', ''kpa_created'', ''kpa_active'',
      ''sks_created'', ''sks_activator_endpoints_populated'', ''sks_endpoints_populated'',
      ''ingress_created'', ''ingress_config_ready'', ''ingress_lb_ready'']"

definition statistics :: "libs \<Rightarrow> MeasureResult \<Rightarrow> MeasureStats" where
  \<comment> \<open>the assignments to \<open>measureFinalResult.Result\<close> in the branch
      \<open>ReadyCount > 0\<close>\<close>
  "statistics L m =
     (let n = f64_of_int (ReadyCount (Service m)); s = Sums m in
      \<lparr>AverageSvcConfigurationReadySum = f64_div (SvcConfigurationsReadySum s) n,
       AverageRevisionReadySum = f64_div (RevisionReadySum s) n,
       AverageDeploymentCreatedSum = f64_div (DeploymentCreatedSum s) n,
       AveragePodScheduledSum = f64_div (PodScheduledSum s) n,
       AverageContainersReadySum = f64_div (ContainersReadySum s) n,
       AverageQueueProxyStartedSum = f64_div (QueueProxyStartedSum s) n,
       AverageUserContrainerStartedSum = f64_div (UserContrainerStartedSum s) n,
       AverageKpaActiveSum = f64_div (KpaActiveSum s) n,
       AverageSksReadySum = f64_div (SksReadySum s) n,
       AverageSksActivatorEndpointsPopulatedSum =
         f64_div (SksActivatorEndpointsPopulatedSum s) n,
       AverageSksEndpointsPopulatedSum = f64_div (SksEndpointsPopulatedSum s) n,
       AverageSvcRoutesReadySum = f64_div (SvcRoutesReadySum s) n,
       AverageIngressReadySum = f64_div (IngressReadySum s) n,
       AverageIngressNetworkConfiguredSum = f64_div (IngressNetworkConfiguredSum s) n,
       AverageIngressLoadBalancerReadySum = f64_div (IngressLoadBalancerReadySum s) n,
       OverallTotal = SvcReadySum s,
       OverallAverage = f64_div (SvcReadySum s) n,
       OverallMedian = stats_Median L (SvcReadyTime m),
       OverallMin = stats_Min L (SvcReadyTime m),
       OverallMax = stats_Max L (SvcReadyTime m),
       P50 = stats_Percentile L (SvcReadyTime m) 50,
       P90 = stats_Percentile L (SvcReadyTime m) 90,
       P95 = stats_Percentile L (SvcReadyTime m) 95,
       P98 = stats_Percentile L (SvcReadyTime m) 98,
       P99 = stats_Percentile L (SvcReadyTime m) 99\<rparr>)"

definition conclude :: "libs \<Rightarrow> shared \<Rightarrow> outcome" where
  \<comment> \<open>\<open>MeasureServices\<close> from the return of \<open>group.Wait()\<close> on\<close>
  "conclude L S =
     (let m = mergeWorkers (workerMeasureResults S) in
      (case sortSlice (sort_Slice L) (rows S) of
         Inl f \<Rightarrow> Panicked f
       | Inr sortedRows \<Rightarrow>
      (case sortSlice (sort_Slice L) (rawRows S) of
         Inl f \<Rightarrow> Panicked f
       | Inr sortedRawRows \<Rightarrow>
      (let rows1 = rows_header # sortedRows;
           rawRows1 = rawRows_header # sortedRawRows;
           total = ReadyCount (Service m) + NotReadyCount (Service m) +
                   NotFoundCount (Service m) + FailCount (Service m);
           m1 = m\<lparr>KnativeInfo :=
                  \<lparr>ServingVersion = knativeVersion L ''serving'',
                   EventingVersion = knativeVersion L ''eventing'',
                   IngressController = ingressInfo L ''ingressController'',
                   IngressVersion = ingressInfo L ''version''\<rparr>\<rparr>
       in if 0 < ReadyCount (Service m1)
          then Completed (Measurement rawRows1 rows1 (m1\<lparr>Result := statistics L m1\<rparr>))
          else Completed (CountsOnly (KnativeInfo m1) total (ReadyCount (Service m1))
                 (NotReadyCount (Service m1)) (NotFoundCount (Service m1))
                 (FailCount (Service m1)))))))"

text \<open>
  \<open>MeasureServices\<close> from the creation of the channel on, for the enumerated list
  \<open>svcNamespacedName\<close> and a sequence of events. \<open>Waiting\<close>: after these events the
  coordinator is still blocked in a send or in \<open>group.Wait()\<close>. \<open>NotARun\<close>: the events
  are not a run of the pool.
\<close>

definition MeasureServices :: "libs \<Rightarrow> int \<Rightarrow> string list list \<Rightarrow> event list \<Rightarrow> outcome" where
  "MeasureServices L Concurrency svcNamespacedName events =
     (if Concurrency < 0 then Panicked MakesliceLenOutOfRange
      else if svcNamespacedName = [] then Failed ''no service found to measure''
      else (case exec (Time_String L) events (start (nat Concurrency) svcNamespacedName) of
              Disabled \<Rightarrow> NotARun
            | Panic f \<Rightarrow> Panicked f
            | Run E \<Rightarrow>
                if pending E = [] \<and> group (store E) = 0 then conclude L (store E)
                else Waiting))"

subsection \<open>The vocabulary of the specification\<close>

text \<open>
  The code has no type for the classification of a target: an item is classified by
  the counter that its iteration increments.
\<close>

datatype classification = Ready | NotReady | NotFound | Fail

definition bump :: "classification \<Rightarrow> MeasureCounts \<Rightarrow> MeasureCounts" where
  "bump c n =
     (case c of
        Ready \<Rightarrow> n\<lparr>ReadyCount := ReadyCount n + 1\<rparr>
      | NotReady \<Rightarrow> n\<lparr>NotReadyCount := NotReadyCount n + 1\<rparr>
      | NotFound \<Rightarrow> n\<lparr>NotFoundCount := NotFoundCount n + 1\<rparr>
      | Fail \<Rightarrow> n\<lparr>FailCount := FailCount n + 1\<rparr>)"

definition counts :: "worker_vars \<Rightarrow> MeasureCounts" where
  "counts v = Service (currentMeasureResult v)"

definition total_count :: "MeasureCounts \<Rightarrow> int" where
  "total_count n = ReadyCount n + NotReadyCount n + NotFoundCount n + FailCount n"

text \<open>
  An iteration that classifies its item as \<open>c\<close> and records nothing else: one counter
  goes up by one, no row is written, no sum and no sample is added, the worker's slot
  holds its result and the wait group is told.
\<close>

definition set_aside ::
  "classification \<Rightarrow> nat \<Rightarrow> worker_vars \<Rightarrow> shared \<Rightarrow> fault + worker_vars \<times> shared \<Rightarrow> bool" where
  "set_aside c index v S r =
     (case r of
        Inl f \<Rightarrow> False
      | Inr (v', S') \<Rightarrow>
          counts v' = bump c (counts v) \<and>
          Sums (currentMeasureResult v') = Sums (currentMeasureResult v) \<and>
          SvcReadyTime (currentMeasureResult v') = SvcReadyTime (currentMeasureResult v) \<and>
          rows S' = rows S \<and> rawRows S' = rawRows S \<and>
          workerMeasureResults S' =
            (workerMeasureResults S)[index := currentMeasureResult v'] \<and>
          group S' = group S - 1)"

text \<open>
  A not-found error is an error whose status has the reason \<open>NotFound\<close>, as
  \<open>apierrors.IsNotFound\<close> tests it. \<open>NewNotFound\<close> is the error that the API machinery
  builds for an object that does not exist; its message is
  \<open>fmt.Sprintf("%s %q not found", resource, name)\<close>, and \<open>%q\<close> puts the name of a
  Kubernetes object, which needs no escape, between double quotes.
\<close>

definition IsNotFound :: "lookup_error \<Rightarrow> bool" where
  "IsNotFound e = (err_Reason e = ''NotFound'')"

definition NewNotFound :: "string \<Rightarrow> string \<Rightarrow> lookup_error" where
  "NewNotFound resource name =
     \<lparr>err_Error = resource @ '' '' @ [CHR 0x22] @ name @ [CHR 0x22] @ '' not found'',
      err_Reason = ''NotFound''\<rparr>"

text \<open>
  A lookup that depends on the service fails: the configuration of the service, or,
  under the revision that the configuration names, the revision, its pods, its
  deployment, its autoscaler or its serverless service, or the ingress of the service.
\<close>

definition dependent_lookup_fails :: "platform \<Rightarrow> string \<Rightarrow> string \<Rightarrow> bool" where
  "dependent_lookup_fails P svcNs svc =
     (case Configurations_Get P svcNs svc of
        Inl err \<Rightarrow> True
      | Inr cfgIns \<Rightarrow>
          (let revisionName = LatestReadyRevisionName cfgIns in
           isl (Revisions_Get P svcNs revisionName) \<or>
           isl (Pods_List P svcNs (''serving.knative.dev/revision='' @ revisionName)) \<or>
           isl (Deployments_Get P svcNs (revisionName @ ''-deployment'')) \<or>
           isl (PodAutoscalers_Get P svcNs revisionName) \<or>
           isl (ServerlessServices_Get P svcNs revisionName) \<or>
           isl (Ingresses_Get P svcNs svc)))"

text \<open>
  Every \<open>State.Running\<close> that the block over the first pod can read is set, and every
  condition that the iteration reads before it returns is present: those of the
  service, and, as far as the lookups succeed, those of the revision, the containers
  of the first pod, and those of the autoscaler and of the serverless service. Nothing
  is asked of an object whose lookup fails, nor of what comes after a failing lookup.
\<close>

definition started :: "Pod list \<Rightarrow> bool" where
  "started Items =
     (case Items of
        [] \<Rightarrow> True
      | pod # _ \<Rightarrow>
          (case getContainerStatus (pod_ContainerStatuses pod) ''queue-proxy'' of
             None \<Rightarrow> True
           | Some queueProxyStatus \<Rightarrow>
               cs_Running_StartedAt queueProxyStatus \<noteq> None \<and>
               (case getContainerStatus (pod_ContainerStatuses pod) ''user-container'' of
                  None \<Rightarrow> True
                | Some userContrainerStatus \<Rightarrow>
                    cs_Running_StartedAt userContrainerStatus \<noteq> None)))"

definition conditions_present :: "platform \<Rightarrow> string \<Rightarrow> string \<Rightarrow> KService \<Rightarrow> bool" where
  "conditions_present P svcNs svc svcIns =
     (svc_ConfigurationsReady svcIns \<noteq> None \<and> svc_RoutesReady svcIns \<noteq> None \<and>
      (case Configurations_Get P svcNs svc of
         Inl err \<Rightarrow> True
       | Inr cfgIns \<Rightarrow>
      (let revisionName = LatestReadyRevisionName cfgIns in
      (case Revisions_Get P svcNs revisionName of
         Inl err \<Rightarrow> True
       | Inr revisionIns \<Rightarrow>
      rev_Ready revisionIns \<noteq> None \<and>
      (case Pods_List P svcNs (''serving.knative.dev/revision='' @ revisionName) of
         Inl err \<Rightarrow> True
       | Inr podList \<Rightarrow>
      (case Deployments_Get P svcNs (revisionName @ ''-deployment'') of
         Inl err \<Rightarrow> True
       | Inr deploymentIns \<Rightarrow>
      started podList \<and>
      (case PodAutoscalers_Get P svcNs revisionName of
         Inl err \<Rightarrow> True
       | Inr kpaIns \<Rightarrow>
      kpa_Active kpaIns \<noteq> None \<and>
      (case ServerlessServices_Get P svcNs revisionName of
         Inl err \<Rightarrow> True
       | Inr sksIns \<Rightarrow>
      sks_ActivatorEndpointsPopulated sksIns \<noteq> None \<and>
      sks_EndpointsPopulated sksIns \<noteq> None \<and> sks_Ready sksIns \<noteq> None))))))))"

text \<open>
  The bookkeeping of a run: the workers that hold an item, the targets classified so
  far, and what ties them to the enumerated list of \<open>N\<close> targets.
\<close>

definition in_hand :: "'a option list \<Rightarrow> int" where
  "in_hand rs = sum_list (map (\<lambda>r. if r = None then 0 else 1) rs)"

definition classified_total :: "MeasureResult list \<Rightarrow> int" where
  "classified_total ws = sum_list (map (\<lambda>w. total_count (Service w)) ws)"

definition pool_inv :: "nat \<Rightarrow> engine \<Rightarrow> bool" where
  "pool_inv N E =
     (length (vars E) = length (receiving E) \<and>
      map currentMeasureResult (vars E) = workerMeasureResults (store E) \<and>
      group (store E) = in_hand (receiving E) \<and>
      classified_total (workerMeasureResults (store E)) + in_hand (receiving E) +
        int (length (pending E)) = int N)"

text \<open>A decimal numeral: digits, with or without a sign in front.\<close>

definition integer_syntax :: "string \<Rightarrow> bool" where
  "integer_syntax s =
     (\<exists>ds. ds \<noteq> [] \<and> list_all is_digit ds \<and>
        (s = ds \<or> s = CHR ''+'' # ds \<or> s = CHR ''-'' # ds))"

text \<open>
  The sixteen sums of a result, and the lists of worker results whose sums are whole
  numbers of seconds that add up, in absolute value, to less than \<open>2 ^ 53\<close>: on
  these no \<open>float64\<close> addition of the merge rounds.
\<close>

definition sum_fields :: "(MeasureSums \<Rightarrow> float64) list" where
  "sum_fields =
     [SvcConfigurationsReadySum, RevisionReadySum, DeploymentCreatedSum, PodScheduledSum,
      ContainersReadySum, QueueProxyStartedSum, UserContrainerStartedSum, SvcRoutesReadySum,
      KpaActiveSum, SksReadySum, SksActivatorEndpointsPopulatedSum, SksEndpointsPopulatedSum,
      IngressReadySum, IngressNetworkConfiguredSum, IngressLoadBalancerReadySum, SvcReadySum]"

definition whole_seconds :: "MeasureResult list \<Rightarrow> bool" where
  "whole_seconds ws =
     (\<forall>f \<in> set sum_fields.
        (\<forall>w \<in> set ws. f (Sums w) \<in> \<int>) \<and> (\<Sum>w\<leftarrow>ws. \<bar>f (Sums w)\<bar>) < 2 ^ 53)"

definition decimal :: "string \<Rightarrow> nat" where
  \<comment> \<open>the number a string of digits denotes\<close>
  "decimal ds = foldl (\<lambda>n c. n * 10 + digit_val c) 0 ds"


definition numeric_suffix :: "string \<Rightarrow> nat" where
  "numeric_suffix name = decimal (rev (takeWhile is_digit (rev name)))"

subsection \<open>Example platforms\<close>

text \<open>
  \<open>healthy\<close> answers every lookup: a service created at second 100 whose routes are
  ready at 105, one pod created at 101, scheduled at 104, with its containers started
  at 103 and ready at 105. The others differ from it in one lookup.
\<close>

definition healthy :: platform where
  "healthy =
     \<lparr>Services_Get = (\<lambda>ns name. Inr
        \<lparr>svc_CreationTimestamp = 100, svc_IsReady = True,
         svc_ConfigurationsReady = Some 102, svc_RoutesReady = Some 105\<rparr>),
      Configurations_Get = (\<lambda>ns name. Inr \<lparr>LatestReadyRevisionName = name @ ''-00001''\<rparr>),
      Revisions_Get = (\<lambda>ns name. Inr \<lparr>rev_CreationTimestamp = 101, rev_Ready = Some 105\<rparr>),
      Pods_List = (\<lambda>ns label. Inr
        [\<lparr>pod_CreationTimestamp = 101,
          pod_Conditions =
            [\<lparr>cond_Type = ''Initialized'', cond_LastTransitionTime = 101\<rparr>,
             \<lparr>cond_Type = ''PodScheduled'', cond_LastTransitionTime = 104\<rparr>,
             \<lparr>cond_Type = ''ContainersReady'', cond_LastTransitionTime = 105\<rparr>],
          pod_ContainerStatuses =
            [\<lparr>cs_Name = ''user-container'', cs_Running_StartedAt = Some 103\<rparr>,
             \<lparr>cs_Name = ''queue-proxy'', cs_Running_StartedAt = Some 103\<rparr>]\<rparr>]),
      Deployments_Get = (\<lambda>ns name. Inr \<lparr>dep_CreationTimestamp = 101\<rparr>),
      PodAutoscalers_Get = (\<lambda>ns name. Inr
        \<lparr>kpa_CreationTimestamp = 101, kpa_Active = Some 105\<rparr>),
      ServerlessServices_Get = (\<lambda>ns name. Inr
        \<lparr>sks_CreationTimestamp = 101, sks_ActivatorEndpointsPopulated = Some 102,
         sks_EndpointsPopulated = Some 105, sks_Ready = Some 105\<rparr>),
      Ingresses_Get = (\<lambda>ns name. Inr
        \<lparr>ing_CreationTimestamp = 102, ing_NetworkConfigured = Some 103,
         ing_LoadBalancerReady = Some 105\<rparr>)\<rparr>"

definition podless :: platform where
  "podless = healthy\<lparr>Pods_List := (\<lambda>ns label. Inr [])\<rparr>"

definition absent :: platform where
  "absent =
     healthy\<lparr>Services_Get :=
       (\<lambda>ns name. Inl (NewNotFound ''services.serving.knative.dev'' name))\<rparr>"

definition unreachable :: platform where
  "unreachable =
     healthy\<lparr>Services_Get :=
       (\<lambda>ns name. Inl \<lparr>err_Error = ''connection refused'', err_Reason = []\<rparr>)\<rparr>"

text \<open>
  \<open>unplugged\<close>: the credential plugin that the configuration of the client names is not
  installed, so no request leaves the client. The error carries no status.
\<close>

definition unplugged :: platform where
  "unplugged =
     healthy\<lparr>Services_Get :=
       (\<lambda>ns name. Inl
          \<lparr>err_Error = ''getting credentials: exec: executable aws not found'',
           err_Reason = []\<rparr>)\<rparr>"

definition unready :: platform where
  "unready =
     healthy\<lparr>Services_Get := (\<lambda>ns name. Inr
       \<lparr>svc_CreationTimestamp = 100, svc_IsReady = False,
        svc_ConfigurationsReady = Some 102, svc_RoutesReady = None\<rparr>)\<rparr>"

definition deadline :: lookup_error where
  "deadline = \<lparr>err_Error = ''context deadline exceeded'', err_Reason = []\<rparr>"

definition lagging :: platform where
  "lagging = healthy\<lparr>Configurations_Get := (\<lambda>ns name. Inl deadline)\<rparr>"

text \<open>The same error from each of the other lookups that depend on the service.\<close>

definition no_revision :: platform where
  "no_revision = healthy\<lparr>Revisions_Get := (\<lambda>ns name. Inl deadline)\<rparr>"

definition no_pods :: platform where
  "no_pods = healthy\<lparr>Pods_List := (\<lambda>ns label. Inl deadline)\<rparr>"

definition no_deployment :: platform where
  "no_deployment = healthy\<lparr>Deployments_Get := (\<lambda>ns name. Inl deadline)\<rparr>"

definition no_autoscaler :: platform where
  "no_autoscaler = healthy\<lparr>PodAutoscalers_Get := (\<lambda>ns name. Inl deadline)\<rparr>"

definition no_mesh :: platform where
  "no_mesh = healthy\<lparr>ServerlessServices_Get := (\<lambda>ns name. Inl deadline)\<rparr>"

definition no_ingress :: platform where
  "no_ingress = healthy\<lparr>Ingresses_Get := (\<lambda>ns name. Inl deadline)\<rparr>"

text \<open>
  \<open>undated\<close> is \<open>podless\<close> with a \<open>RoutesReady\<close> condition that carries no transition
  time: the instant is the zero time, and its distance to the creation of the service is
  more than a \<open>Duration\<close> holds.
\<close>

definition undated :: platform where
  "undated =
     podless\<lparr>Services_Get := (\<lambda>ns name. Inr
       \<lparr>svc_CreationTimestamp = 100, svc_IsReady = True,
        svc_ConfigurationsReady = Some 102, svc_RoutesReady = Some zeroTime\<rparr>)\<rparr>"

definition plain_time :: "time \<Rightarrow> string" where
  \<comment> \<open>a stand-in for \<open>Time.String\<close>: the seconds since the epoch\<close>
  "plain_time t = Sprintf_d t"

definition basic_libs :: libs where
  "basic_libs =
     \<lparr>sort_Slice = insertionSort, Time_String = plain_time,
      stats_Median = (\<lambda>xs. 0), stats_Min = (\<lambda>xs. 0), stats_Max = (\<lambda>xs. 0),
      stats_Percentile = (\<lambda>xs p. 0),
      knativeVersion = (\<lambda>k. []), ingressInfo = (\<lambda>k. [])\<rparr>"

text \<open>A worker's result with \<open>n\<close> ready targets and \<open>s\<close> seconds of overall duration.\<close>

definition worker_result :: "int \<Rightarrow> float64 \<Rightarrow> MeasureResult" where
  "worker_result n s =
     zeroResult\<lparr>Sums := zeroSums\<lparr>SvcRoutesReadySum := s, SvcReadySum := s\<rparr>,
                Service := zeroCounts\<lparr>ReadyCount := n\<rparr>\<rparr>"

declare bit_length.simps [simp del]
declare digits.simps [simp del]

section \<open>Lemmas\<close>

subsection \<open>Rounding\<close>

lemma bit_length_bounds:
  "0 < n \<Longrightarrow> 2 ^ (bit_length n - 1) \<le> n \<and> n < 2 ^ bit_length n"
proof (induction n rule: bit_length.induct)
  case (1 n)
  show ?case
  proof (cases "n div 2 = 0")
    case True
    with "1.prems" have "n = 1" by (simp add: div_eq_0_iff) 
    then show ?thesis by (simp add: bit_length.simps)
  next
    case False
    then have pos: "0 < n div 2" by simp
    from "1.IH" [OF _ pos] "1.prems"
    have ih: "2 ^ (bit_length (n div 2) - 1) \<le> n div 2" "n div 2 < 2 ^ bit_length (n div 2)"
      by auto
    have bl: "bit_length n = Suc (bit_length (n div 2))"
      using "1.prems" by (subst bit_length.simps) simp
    have blpos: "0 < bit_length (n div 2)"
      using pos by (subst bit_length.simps) simp
    then obtain k where k: "bit_length (n div 2) = Suc k" by (cases "bit_length (n div 2)") auto
    from ih k have "2 ^ k \<le> n div 2" "n div 2 < 2 ^ Suc k" by auto
    then have "2 ^ Suc k \<le> n" "n < 2 ^ Suc (Suc k)" by auto
    then show ?thesis using bl k by simp
  qed
qed

lemma exponent_of_bounds:
  assumes "x \<noteq> 0"
  shows "2 powi exponent_of x \<le> \<bar>x\<bar> \<and> \<bar>x\<bar> < 2 powi (exponent_of x + 1)"
proof (cases "1 \<le> \<bar>x\<bar>")
  case True
  define m where "m = nat \<lfloor>\<bar>x\<bar>\<rfloor>"
  have m1: "0 < m" using True by (simp add: m_def)
  have mle: "of_nat m \<le> \<bar>x\<bar>" "\<bar>x\<bar> < of_nat m + 1"
    using True floor_correct [of "\<bar>x\<bar>"] by (simp_all add: m_def)
  from bit_length_bounds [OF m1]
  have b: "2 ^ (bit_length m - 1) \<le> m" "m < 2 ^ bit_length m" by auto
  have e: "exponent_of x = int (bit_length m) - 1"
    using True by (simp add: exponent_of_def m_def)
  have blpos: "0 < bit_length m" using m1 by (subst bit_length.simps) simp
  have lo: "(2::rat) powi (int (bit_length m) - 1) = 2 ^ (bit_length m - 1)"
    using blpos by (simp add: power_int_def nat_diff_distrib' )
  have hi: "(2::rat) powi (int (bit_length m) - 1 + 1) = 2 ^ bit_length m"
    by simp
  have "(2::rat) ^ (bit_length m - 1) \<le> of_nat m"
    using b(1) by (metis of_nat_le_iff of_nat_numeral of_nat_power)
  moreover have "of_nat m + 1 \<le> (2::rat) ^ bit_length m"
  proof -
    have "Suc m \<le> 2 ^ bit_length m" using b(2) by simp
    then have "(of_nat (Suc m) :: rat) \<le> of_nat (2 ^ bit_length m)"
      by (simp only: of_nat_le_iff)
    then show ?thesis by simp
  qed
  ultimately show ?thesis using mle unfolding e lo hi by linarith
next
  case False
  define y where "y = 1 / \<bar>x\<bar>"
  have xpos: "0 < \<bar>x\<bar>" using assms by simp
  have y1: "1 < y" using False xpos by (simp add: y_def)
  define m where "m = nat (\<lceil>y\<rceil> - 1)"
  have c2: "2 \<le> \<lceil>y\<rceil>" using y1 by (simp add: le_ceiling_iff)
  have m1: "0 < m" using c2 by (simp add: m_def)
  have my: "of_nat m < y" "y \<le> of_nat m + 1"
  proof -
    have "of_int (\<lceil>y\<rceil> - 1) < y" by (simp add: less_ceiling_iff [symmetric]) linarith
    moreover have "(of_nat m :: rat) = of_int (\<lceil>y\<rceil> - 1)"
      using c2 by (simp add: m_def)
    ultimately show "of_nat m < y" by simp
    have "y \<le> of_int \<lceil>y\<rceil>" by simp
    moreover have "(of_nat m :: rat) + 1 = of_int \<lceil>y\<rceil>"
      using c2 by (simp add: m_def)
    ultimately show "y \<le> of_nat m + 1" by simp
  qed
  from bit_length_bounds [OF m1]
  have b: "2 ^ (bit_length m - 1) \<le> m" "m < 2 ^ bit_length m" by auto
  have e: "exponent_of x = - int (bit_length m)"
    using False by (simp add: exponent_of_def m_def y_def)
  have blpos: "0 < bit_length m" using m1 by (subst bit_length.simps) simp
  have lo: "(2::rat) powi (- int (bit_length m)) = 1 / 2 ^ bit_length m"
    by (simp add: power_int_minus_divide)
  have hi: "(2::rat) powi (- int (bit_length m) + 1) = 1 / 2 ^ (bit_length m - 1)"
  proof -
    have "- int (bit_length m) + 1 = - int (bit_length m - 1)" using blpos by simp
    then show ?thesis by (simp only: power_int_minus_divide power_int_of_nat)
  qed
  have A: "(2::rat) ^ (bit_length m - 1) < y"
  proof -
    have "(2::rat) ^ (bit_length m - 1) \<le> of_nat m"
      using b(1) by (metis of_nat_le_iff of_nat_numeral of_nat_power)
    then show ?thesis using my(1) by linarith
  qed
  have B: "y \<le> (2::rat) ^ bit_length m"
  proof -
    have "Suc m \<le> 2 ^ bit_length m" using b(2) by simp
    then have "(of_nat (Suc m) :: rat) \<le> of_nat (2 ^ bit_length m)"
      by (simp only: of_nat_le_iff)
    then show ?thesis using my(2) by simp
  qed
  have "1 / 2 ^ bit_length m \<le> \<bar>x\<bar>"
    using B xpos by (simp add: y_def field_simps)
  moreover have "\<bar>x\<bar> < 1 / 2 ^ (bit_length m - 1)"
    using A xpos by (simp add: y_def field_simps)
  ultimately show ?thesis unfolding e lo hi by simp
qed

lemma pow2_less_imp_less:
  assumes "(2::rat) powi a < 2 powi b"
  shows "a < b"
proof (rule ccontr)
  assume "\<not> a < b"
  then have "b \<le> a" by simp
  then have "(2::rat) powi b \<le> 2 powi a" by (rule power_int_increasing) simp
  with assms show False by simp
qed

lemma exponent_of_unique:
  assumes "2 powi e \<le> \<bar>x\<bar>" "\<bar>x\<bar> < 2 powi (e + 1)"
  shows "exponent_of x = e"
proof -
  have "\<not> (2::rat) powi e \<le> 0" by (simp add: not_le)
  with assms(1) have nz: "x \<noteq> 0" by auto
  from exponent_of_bounds [OF nz]
  have b: "2 powi exponent_of x \<le> \<bar>x\<bar>" "\<bar>x\<bar> < 2 powi (exponent_of x + 1)" by auto
  have "(2::rat) powi e < 2 powi (exponent_of x + 1)" using assms(1) b(2) by linarith
  then have 1: "e < exponent_of x + 1" by (rule pow2_less_imp_less)
  have "(2::rat) powi exponent_of x < 2 powi (e + 1)" using assms(2) b(1) by linarith
  then have 2: "exponent_of x < e + 1" by (rule pow2_less_imp_less)
  from 1 2 show ?thesis by simp
qed

lemma round_half_even_of_int [simp]: "round_half_even (of_int n) = n"
  by (simp add: round_half_even_def)

lemma round_half_even_near:
  assumes "\<bar>y - of_int n\<bar> < 1 / 2"
  shows "round_half_even y = n"
proof -
  consider "\<lfloor>y\<rfloor> = n" | "\<lfloor>y\<rfloor> = n - 1"
  proof -
    have "of_int n - 1 \<le> y" "y < of_int n + 1" using assms by linarith+
    then have "of_int (n - 1) \<le> y" "y < of_int (n + 1)" by simp_all
    then have "n - 1 \<le> \<lfloor>y\<rfloor>" "\<lfloor>y\<rfloor> < n + 1"
      by (simp_all only: le_floor_iff floor_less_iff)
    then have "\<lfloor>y\<rfloor> = n \<or> \<lfloor>y\<rfloor> = n - 1" by linarith
    then show ?thesis using that by blast
  qed
  then show ?thesis
  proof cases
    case 1
    have "y - of_int n < 1 / 2" using assms by linarith
    then show ?thesis using 1 by (simp add: round_half_even_def Let_def)
  next
    case 2
    have "1 / 2 < y - (of_int n - 1)" using assms by linarith
    then have "1 / 2 < y - of_int (n - 1)" by simp
    then have "1 / 2 < y - of_int \<lfloor>y\<rfloor>" "\<not> y - of_int \<lfloor>y\<rfloor> < 1 / 2"
      unfolding 2 by simp_all
    then show ?thesis using 2 by (simp add: round_half_even_def Let_def)
  qed
qed

lemma round_half_even_tie:
  assumes "y = of_int n + 1 / 2"
  shows "round_half_even y = (if even n then n else n + 1)"
proof -
  have "\<lfloor>y\<rfloor> = n" unfolding assms by (simp add: floor_unique)
  then show ?thesis using assms by (simp add: round_half_even_def Let_def)
qed

text \<open>Rounding a number whose exponent and nearest significand are known.\<close>

lemma f64_round_near:
  assumes "2 powi e \<le> \<bar>x\<bar>" "\<bar>x\<bar> < 2 powi (e + 1)" "- 1022 \<le> e"
    and "\<bar>x / 2 powi (e - 52) - of_int n\<bar> < 1 / 2"
  shows "f64_round x = of_int n * 2 powi (e - 52)"
proof -
  have "\<not> (2::rat) powi e \<le> 0" by (simp add: not_le)
  with assms(1) have nz: "x \<noteq> 0" by auto
  have e: "exponent_of x = e" using assms(1,2) by (rule exponent_of_unique)
  show ?thesis
    using nz assms(3) round_half_even_near [OF assms(4)]
    by (simp add: f64_round_def e Let_def max_def)
qed

lemma f64_round_tie:
  assumes "2 powi e \<le> \<bar>x\<bar>" "\<bar>x\<bar> < 2 powi (e + 1)" "- 1022 \<le> e"
    and "x / 2 powi (e - 52) = of_int n + 1 / 2"
  shows "f64_round x = of_int (if even n then n else n + 1) * 2 powi (e - 52)"
proof -
  have "\<not> (2::rat) powi e \<le> 0" by (simp add: not_le)
  with assms(1) have nz: "x \<noteq> 0" by auto
  have e: "exponent_of x = e" using assms(1,2) by (rule exponent_of_unique)
  show ?thesis
    using nz assms(3) round_half_even_tie [OF assms(4)]
    by (simp add: f64_round_def e Let_def max_def)
qed

text \<open>An integer below \<open>2 ^ 53\<close> in absolute value is a \<open>float64\<close>.\<close>

lemma f64_round_of_int:
  assumes "\<bar>n\<bar> < 2 ^ 53"
  shows "f64_round (of_int n) = of_int n"
proof (cases "n = 0")
  case True
  then show ?thesis by (simp add: f64_round_def)
next
  case False
  define x :: rat where "x = of_int n"
  define e where "e = exponent_of x"
  have nz: "x \<noteq> 0" using False by (simp add: x_def)
  from exponent_of_bounds [OF nz]
  have b: "2 powi e \<le> \<bar>x\<bar>" "\<bar>x\<bar> < 2 powi (e + 1)" by (auto simp: e_def)
  have "1 \<le> \<bar>x\<bar>" using False by (simp add: x_def flip: of_int_abs)
  then have "(2::rat) powi 0 < 2 powi (e + 1)" using b(2) by simp
  then have e0: "0 \<le> e" using pow2_less_imp_less by fastforce
  have "\<bar>x\<bar> < 2 ^ 53" using assms by (simp add: x_def flip: of_int_abs)
  then have "(2::rat) powi e < 2 powi 53" using b(1) by simp
  then have e52: "e \<le> 52" using pow2_less_imp_less by fastforce
  define k where "k = nat (52 - e)"
  have q: "(2::rat) powi (e - 52) = 1 / 2 ^ k"
  proof -
    have "e - 52 = - int k" using e52 by (simp add: k_def)
    then show ?thesis by (simp only: power_int_minus_divide power_int_of_nat)
  qed
  have "x / 2 powi (e - 52) = of_int (n * 2 ^ k)"
    by (simp add: q x_def)
  then have r: "round_half_even (x / 2 powi (e - 52)) = n * 2 ^ k"
    by (simp only: round_half_even_of_int)
  have "max e (- 1022) = e" using e0 by simp
  then have "f64_round x = of_int (n * 2 ^ k) * (1 / 2 ^ k)"
    using nz r by (simp add: f64_round_def Let_def q flip: e_def)
  then show ?thesis by (simp add: x_def)
qed

lemma f64_of_int_exact: "\<bar>n\<bar> < 2 ^ 53 \<Longrightarrow> f64_of_int n = of_int n"
  by (simp add: f64_of_int_def f64_round_of_int)

lemma f64_add_exact:
  "\<bar>a + b\<bar> < 2 ^ 53 \<Longrightarrow> f64_add (of_int a) (of_int b) = of_int (a + b)"
  using f64_round_of_int [of "a + b"] by (simp add: f64_add_def)

lemma Seconds_whole:
  assumes "\<bar>s\<bar> < 2 ^ 53"
  shows "Seconds (s * 1000000000) = of_int s"
proof -
  have q: "quot (s * 1000000000) 1000000000 = s"
    by (simp add: quot_def abs_mult sgn_mult flip: mult_sgn_abs) (metis mult_sgn_abs)
  have r: "rem (s * 1000000000) 1000000000 = 0"
    by (simp add: rem_def q)
  have z: "f64_div 0 1000000000 = 0"
    by (simp add: f64_div_def f64_round_def)
  show ?thesis
    using assms f64_round_of_int [of s]
    by (simp add: Seconds_def q r z f64_of_int_exact f64_add_def)
qed

lemma Sub_in_range:
  assumes "\<bar>t - u\<bar> \<le> 9223372036"
  shows "Sub t u = (t - u) * 1000000000"
proof -
  have "- 9223372036 \<le> t - u" "t - u \<le> 9223372036" using assms by linarith+
  then have "\<not> (t - u) * 1000000000 < minDuration"
    "\<not> maxDuration < (t - u) * 1000000000"
    by (simp_all add: minDuration_def maxDuration_def)
  then show ?thesis by (simp only: Sub_def Let_def if_False)
qed

lemma Seconds_Sub:
  assumes "\<bar>t - u\<bar> \<le> 9223372036"
  shows "Seconds (Sub t u) = of_int (t - u)"
proof -
  have "\<bar>t - u\<bar> < 2 ^ 53" using assms by simp
  then show ?thesis by (simp only: Sub_in_range [OF assms] Seconds_whole)
qed

lemma cell_Sub:
  assumes "\<bar>t - u\<bar> \<le> 9223372036"
  shows "cell (Sub t u) = Sprintf_d (t - u)"
  by (simp add: cell_def Seconds_Sub [OF assms] int_of_f64_def)

lemma round_half_even_ge_floor: "\<lfloor>y\<rfloor> \<le> round_half_even y"
  by (simp add: round_half_even_def Let_def)

lemma f64_round_pos:
  assumes "1 \<le> x"
  shows "0 < f64_round x"
proof -
  define e where "e = exponent_of x"
  have nz: "x \<noteq> 0" using assms by auto
  from exponent_of_bounds [OF nz]
  have b: "2 powi e \<le> \<bar>x\<bar>" "\<bar>x\<bar> < 2 powi (e + 1)" by (auto simp: e_def)
  have "(2::rat) powi 0 < 2 powi (e + 1)" using assms b(2) by simp
  then have e0: "0 \<le> e" using pow2_less_imp_less by fastforce
  define q :: rat where "q = 2 powi (e - 52)"
  have qpos: "0 < q" by (simp add: q_def)
  have "2 powi e = q * 2 ^ 52"
  proof -
    have "(2::rat) powi e = 2 powi ((e - 52) + 52)" by simp
    also have "\<dots> = 2 powi (e - 52) * 2 powi 52" by (rule power_int_add) simp
    finally show ?thesis by (simp add: q_def)
  qed
  then have "q * 2 ^ 52 \<le> x" using b(1) assms by simp
  then have "2 ^ 52 \<le> x / q" using qpos by (simp add: pos_le_divide_eq mult.commute)
  then have "1 \<le> x / q" by simp
  then have "1 \<le> \<lfloor>x / q\<rfloor>" by (simp add: le_floor_iff)
  then have "1 \<le> round_half_even (x / q)"
    using round_half_even_ge_floor [of "x / q"] by linarith
  then have "0 < (of_int (round_half_even (x / q)) :: rat) * q" using qpos by simp
  moreover have "max e (- 1022) = e" using e0 by simp
  ultimately show ?thesis using nz by (simp add: f64_round_def Let_def q_def flip: e_def)
qed

lemma f64_of_int_pos: "0 < n \<Longrightarrow> 0 < f64_of_int n"
  by (simp add: f64_of_int_def f64_round_pos)

lemma f64_round_Ints:
  assumes "x \<in> \<int>" "\<bar>x\<bar> < 2 ^ 53"
  shows "f64_round x = x"
proof -
  from assms(1) obtain a where a: "x = of_int a" by (auto elim!: Ints_cases)
  have "(of_int \<bar>a\<bar> :: rat) < of_int (2 ^ 53)" using assms(2) by (simp add: a)
  then have "\<bar>a\<bar> < 2 ^ 53" by (simp only: of_int_less_iff)
  then show ?thesis unfolding a by (rule f64_round_of_int)
qed

subsection \<open>One iteration\<close>

lemmas inc_defs = incReady_def incNotReady_def incNotFound_def incFail_def

lemma counts_inc [simp]:
  "counts (incReady v) = bump Ready (counts v)"
  "counts (incNotReady v) = bump NotReady (counts v)"
  "counts (incNotFound v) = bump NotFound (counts v)"
  "counts (incFail v) = bump Fail (counts v)"
  by (simp_all add: counts_def bump_def inc_defs)

lemma inc_keeps [simp]:
  "Sums (currentMeasureResult (incNotReady v)) = Sums (currentMeasureResult v)"
  "Sums (currentMeasureResult (incNotFound v)) = Sums (currentMeasureResult v)"
  "Sums (currentMeasureResult (incFail v)) = Sums (currentMeasureResult v)"
  "SvcReadyTime (currentMeasureResult (incNotReady v)) = SvcReadyTime (currentMeasureResult v)"
  "SvcReadyTime (currentMeasureResult (incNotFound v)) = SvcReadyTime (currentMeasureResult v)"
  "SvcReadyTime (currentMeasureResult (incFail v)) = SvcReadyTime (currentMeasureResult v)"
  by (simp_all add: inc_defs)

lemma set_aside_next_item:
  assumes "counts u = bump c (counts v)"
    and "Sums (currentMeasureResult u) = Sums (currentMeasureResult v)"
    and "SvcReadyTime (currentMeasureResult u) = SvcReadyTime (currentMeasureResult v)"
  shows "set_aside c index v S (next_item index u S)"
  using assms by (simp add: set_aside_def next_item_def)

lemma pod_stage_result:
  "pod_stage Items v = Inr (GiveUp v') \<Longrightarrow> currentMeasureResult v' = currentMeasureResult v"
  "pod_stage Items v = Inr (Measured v' pt) \<Longrightarrow> currentMeasureResult v' = currentMeasureResult v"
  "pod_stage Items v = Inl f \<Longrightarrow> f = NilPointerDereference"
  by (auto simp: pod_stage_def deref_def Let_def split: list.splits option.splits)

lemma started_pod_stage: "started Items \<Longrightarrow> pod_stage Items v = Inl f \<Longrightarrow> False"
  by (auto simp: started_def pod_stage_def deref_def Let_def split: list.splits option.splits)

lemma strings_Contains_suffix: "strings_Contains (xs @ sub) sub"
proof (induction xs)
  case Nil
  show ?case by (cases sub) simp_all
next
  case (Cons c xs)
  then show ?case by simp
qed

lemma NewNotFound_message:
  "strings_Contains (err_Error (NewNotFound resource name)) ''not found''"
proof -
  have "err_Error (NewNotFound resource name) =
      (resource @ '' '' @ [CHR 0x22] @ name @ [CHR 0x22] @ '' '') @ ''not found''"
    by (simp add: NewNotFound_def)
  then show ?thesis by (simp only: strings_Contains_suffix)
qed

lemma pod_stage_routes:
  "pod_stage Items v = Inr (Measured v' pt) \<Longrightarrow>
     currentMeasureResult v' = currentMeasureResult v \<and>
     svcReadyDuration v' = svcReadyDuration v \<and>
     svcRoutesReadyDuration v' = svcRoutesReadyDuration v"
  by (auto simp: pod_stage_def deref_def Let_def split: list.splits option.splits)

subsection \<open>The pool\<close>

lemma sum_list_map_update:
  fixes f :: "'a \<Rightarrow> int"
  assumes "i < length xs"
  shows "sum_list (map f (xs[i := y])) = sum_list (map f xs) - f (xs ! i) + f y"
  using assms
proof (induction xs arbitrary: i)
  case Nil
  then show ?case by simp
next
  case (Cons x xs)
  then show ?case by (cases i) simp_all
qed

lemma total_count_bump [simp]: "total_count (bump c n) = total_count n + 1"
  by (cases c) (simp_all add: bump_def total_count_def)

lemma bump_inject: "bump c n = bump c' n \<Longrightarrow> c = c'"
  by (cases c; cases c')
    (auto simp: bump_def dest: arg_cong [where f = ReadyCount] arg_cong [where f = NotReadyCount]
       arg_cong [where f = NotFoundCount] arg_cong [where f = FailCount])

lemma iteration_effect:
  assumes "iteration ts P i v j S = Inr (v', S')"
  shows "(\<exists>c. counts v' = bump c (counts v)) \<and>
    workerMeasureResults S' = (workerMeasureResults S)[i := currentMeasureResult v'] \<and>
    group S' = group S - 1"
proof -
  have "counts v' \<in> {bump Ready (counts v), bump NotReady (counts v),
      bump NotFound (counts v), bump Fail (counts v)} \<and>
    workerMeasureResults S' = (workerMeasureResults S)[i := currentMeasureResult v'] \<and>
    group S' = group S - 1"
    using assms
    apply (simp add: iteration_def next_item_def deref_def Let_def
        split: if_splits sum.splits option.splits pod_outcome.splits)
    apply (auto simp: counts_def bump_def inc_defs dest!: pod_stage_result(1) pod_stage_routes)
    done
  then show ?thesis by auto
qed

lemma pool_inv_start: "pool_inv (length ts) (start n ts)"
  by (simp add: pool_inv_def start_def in_hand_def classified_total_def zeroVars_def
      total_count_def zeroResult_def zeroCounts_def sum_list_replicate)

lemma pool_inv_step:
  assumes "step ts e E = Run E'" "pool_inv N E"
  shows "pool_inv N E'"
proof (cases e)
  case (Send w)
  with assms(1) obtain item rest where p: "pending E = item # rest"
    and w: "w < length (receiving E)" "receiving E ! w = None"
    and E': "E' = E\<lparr>pending := rest, receiving := (receiving E)[w := Some item],
                      store := (store E)\<lparr>group := group (store E) + 1\<rparr>\<rparr>"
    by (auto split: list.splits if_splits)
  have "in_hand ((receiving E)[w := Some item]) = in_hand (receiving E) + 1"
    using w by (simp add: in_hand_def sum_list_map_update)
  then show ?thesis using assms(2) p by (simp add: pool_inv_def E')
next
  case (Finish w P)
  with assms(1) obtain j v S where w: "w < length (receiving E)" "receiving E ! w = Some j"
    and it: "iteration ts P w (vars E ! w) j (store E) = Inr (v, S)"
    and E': "E' = E\<lparr>receiving := (receiving E)[w := None], vars := (vars E)[w := v],
                      store := S\<rparr>"
    by (auto split: option.splits if_splits sum.splits)
  from iteration_effect [OF it] obtain c where
    c: "counts v = bump c (counts (vars E ! w))"
    and wm: "workerMeasureResults S = (workerMeasureResults (store E))[w := currentMeasureResult v]"
    and g: "group S = group (store E) - 1"
    by blast
  have len: "w < length (vars E)" "w < length (workerMeasureResults (store E))"
    using assms(2) w(1) by (auto simp: pool_inv_def dest: arg_cong [where f = length])
  have old: "workerMeasureResults (store E) ! w = currentMeasureResult (vars E ! w)"
    using assms(2) len by (auto simp: pool_inv_def dest: arg_cong [where f = "\<lambda>xs. xs ! w"])
  have h: "in_hand ((receiving E)[w := None]) = in_hand (receiving E) - 1"
    using w by (simp add: in_hand_def sum_list_map_update)
  have t: "classified_total (workerMeasureResults S) =
      classified_total (workerMeasureResults (store E)) + 1"
    using len c old by (simp add: wm classified_total_def sum_list_map_update counts_def)
  have m: "map currentMeasureResult ((vars E)[w := v]) = workerMeasureResults S"
    using assms(2) by (simp add: wm pool_inv_def map_update)
  show ?thesis using assms(2) h t m g by (simp add: pool_inv_def E')
qed

lemma pool_inv_exec:
  assumes "exec ts es E = Run E'" "pool_inv N E"
  shows "pool_inv N E'"
  using assms
proof (induction es arbitrary: E)
  case Nil
  then show ?case by simp
next
  case (Cons e es)
  then show ?case by (auto split: run.splits dest: pool_inv_step)
qed

lemma in_hand_nonneg: "0 \<le> in_hand rs"
  by (induction rs) (simp_all add: in_hand_def)

lemma foldl_addWorker_total:
  "total_count (Service (foldl addWorker m ws)) = total_count (Service m) + classified_total ws"
  by (induction ws arbitrary: m) (simp_all add: classified_total_def addWorker_def total_count_def)

lemma mergeWorkers_total: "total_count (Service (mergeWorkers ws)) = classified_total ws"
  unfolding mergeWorkers_def foldl_addWorker_total
  by (simp add: zeroResult_def zeroCounts_def total_count_def)

subsection \<open>Evaluation\<close>

lemma f64_add_Ints:
  assumes "x \<in> \<int>" "y \<in> \<int>" "\<bar>x + y\<bar> < 2 ^ 53"
  shows "f64_add x y = x + y"
proof -
  from assms(1,2) obtain a b where ab: "x = of_int a" "y = of_int b"
    by (auto elim!: Ints_cases)
  have "\<bar>a + b\<bar> < 2 ^ 53"
  proof -
    have "\<bar>(of_int (a + b) :: rat)\<bar> < 2 ^ 53" using assms(3) by (simp add: ab)
    then have "(of_int \<bar>a + b\<bar> :: rat) < of_int (2 ^ 53)" by simp
    then show ?thesis by (simp only: of_int_less_iff)
  qed
  then show ?thesis unfolding ab by (simp add: f64_add_exact)
qed

lemma replicate_two: "replicate 2 x = [x, x]"
  by (simp add: numeral_2_eq_2)

lemmas run_simps =
  MeasureServices_def conclude_def mergeWorkers_def addWorker_def sortSlice_def
  insertionSort_def basic_libs_def start_def zeroVars_def zeroResult_def zeroSums_def
  zeroCounts_def zeroStats_def iteration_def pod_stage_def deref_def next_item_def
  inc_defs Let_def addSums_def cell_Sub Seconds_Sub f64_add_Ints plain_time_def
  Sprintf_d_def digits.simps zeroTime_def healthy_def podless_def absent_def
  unreachable_def unready_def lagging_def deadline_def NewNotFound_def replicate_two

text \<open>
  A duration that saturates: \<open>Sub\<close> yields the least \<open>Duration\<close>,
  \<open>-9223372036.854775808\<close> seconds, which \<open>Seconds\<close> rounds to
  \<open>-4835703278458517 / 2 ^ 19\<close>. Adding that number three times rounds once, on a tie.
\<close>

lemma Sub_saturated: "t - u < - 9223372037 \<Longrightarrow> Sub t u = minDuration"
  by (simp add: Sub_def Let_def minDuration_def)

lemma quot_minDuration: "quot minDuration 1000000000 = - 9223372036"
  by (simp add: quot_def minDuration_def)

lemma rem_minDuration: "rem minDuration 1000000000 = - 854775808"
  by (simp add: rem_def quot_minDuration) (simp add: minDuration_def)

lemma f64_div_minDuration:
  "f64_div (- 854775808) 1000000000 = - (7699136020788229 / 9007199254740992)"
  using f64_round_near [of "-1" "- (854775808 / 1000000000)" "- 7699136020788229"]
  by (simp add: f64_div_def)

lemma Seconds_minDuration: "Seconds minDuration = - (4835703278458517 / 524288)"
  using f64_round_near
    [of 33 "- (83076749736557242056487941 / 9007199254740992)" "- 4835703278458517"]
  by (simp add: Seconds_def quot_minDuration rem_minDuration f64_div_minDuration
      f64_of_int_exact f64_add_def)

lemma saturated_sums:
  "f64_add 0 (- (4835703278458517 / 524288)) = - (4835703278458517 / 524288)"
  "f64_add (- (4835703278458517 / 524288)) (- (4835703278458517 / 524288)) =
     - (4835703278458517 / 262144)"
  "f64_add (- (4835703278458517 / 262144)) (- (4835703278458517 / 524288)) =
     - (226673591177743 / 8192)"
  "f64_add 0 (- (226673591177743 / 8192)) = - (226673591177743 / 8192)"
  "f64_add (- (226673591177743 / 8192)) (- (4835703278458517 / 262144)) =
     - (3022314549036573 / 65536)"
  "f64_add (- (3022314549036573 / 65536)) (- (4835703278458517 / 524288)) =
     - (7253554917687775 / 131072)"
  "f64_add (- (226673591177743 / 8192)) (- (4835703278458517 / 524288)) =
     - (4835703278458517 / 131072)"
  "f64_add (- (4835703278458517 / 131072)) (- (4835703278458517 / 262144)) =
     - (226673591177743 / 4096)"
proof -
  show "f64_add 0 (- (4835703278458517 / 524288)) = - (4835703278458517 / 524288)"
    using f64_round_near [of 33 "- (4835703278458517 / 524288)" "- 4835703278458517"]
    by (simp add: f64_add_def)
  show "f64_add (- (4835703278458517 / 524288)) (- (4835703278458517 / 524288)) =
     - (4835703278458517 / 262144)"
    using f64_round_near [of 34 "- (4835703278458517 / 262144)" "- 4835703278458517"]
    by (simp add: f64_add_def)
  show "f64_add (- (4835703278458517 / 262144)) (- (4835703278458517 / 524288)) =
     - (226673591177743 / 8192)"
    using f64_round_tie [of 34 "- (14507109835375551 / 524288)" "- 7253554917687776"]
    by (simp add: f64_add_def)
  show "f64_add 0 (- (226673591177743 / 8192)) = - (226673591177743 / 8192)"
    using f64_round_near [of 34 "- (226673591177743 / 8192)" "- 7253554917687776"]
    by (simp add: f64_add_def)
  show "f64_add (- (226673591177743 / 8192)) (- (4835703278458517 / 262144)) =
     - (3022314549036573 / 65536)"
    using f64_round_tie [of 35 "- (24178516392292586 / 524288)" "- 6044629098073147"]
    by (simp add: f64_add_def)
  show "f64_add (- (3022314549036573 / 65536)) (- (4835703278458517 / 524288)) =
     - (7253554917687775 / 131072)"
    using f64_round_near [of 35 "- (29014219670751101 / 524288)" "- 7253554917687775"]
    by (simp add: f64_add_def)
  show "f64_add (- (226673591177743 / 8192)) (- (4835703278458517 / 524288)) =
     - (4835703278458517 / 131072)"
    using f64_round_near [of 35 "- (19342813113834069 / 524288)" "- 4835703278458517"]
    by (simp add: f64_add_def)
  show "f64_add (- (4835703278458517 / 131072)) (- (4835703278458517 / 262144)) =
     - (226673591177743 / 4096)"
    using f64_round_tie [of 35 "- (29014219670751102 / 524288)" "- 7253554917687776"]
    by (simp add: f64_add_def)
qed

lemma replicate_three: "replicate 3 x = [x, x, x]"
  by (simp add: numeral_3_eq_3)

subsection \<open>Names\<close>

lemma strings_Split_not_Nil [simp]: "strings_Split s c \<noteq> []"
  by (induction s) (auto split: list.splits)

lemma strings_Split_no_sep: "c \<notin> set s \<Longrightarrow> strings_Split s c = [s]"
  by (induction s) (auto split: list.splits)

lemma strings_Split_pieces: "p \<in> set (strings_Split s c) \<Longrightarrow> c \<notin> set p"
proof (induction s arbitrary: p)
  case Nil
  then show ?case by simp
next
  case (Cons x s)
  then show ?case
    by (cases "strings_Split s c") (auto split: if_splits)
qed

lemma strings_Split_sep:
  assumes "c \<in> set s"
  shows "\<exists>a0 a1 more. strings_Split s c = a0 # a1 # more"
  using assms
proof (induction s)
  case Nil
  then show ?case by simp
next
  case (Cons x s)
  show ?case
  proof (cases "x = c")
    case True
    then show ?thesis by (cases "strings_Split s c") simp_all
  next
    case False
    with Cons.prems have "c \<in> set s" by simp
    from Cons.IH [OF this] False show ?thesis by auto
  qed
qed

lemma sign_is_no_digit [simp]: "\<not> is_digit CHR ''+''" "\<not> is_digit CHR ''-''"
  by (simp_all add: is_digit_def)

lemma digit_val_less: "is_digit c \<Longrightarrow> digit_val c < 10"
  by (auto simp: is_digit_def digit_val_def)

lemma ParseUint_digits_syntax:
  assumes "\<not> list_all is_digit ds" "n < 10 ^ k" "k + length ds \<le> 18"
  shows "ParseUint_digits n ds = (0, Some ErrSyntax)"
  using assms
proof (induction ds arbitrary: n k)
  case Nil
  then show ?case by simp
next
  case (Cons c cs)
  show ?case
  proof (cases "is_digit c")
    case False
    then show ?thesis by simp
  next
    case True
    have k: "k \<le> 17" using Cons.prems(3) by simp
    have "(10::nat) ^ k \<le> 10 ^ 17" using k by (intro power_increasing) simp_all
    then have n: "n < 100000000000000000" using Cons.prems(2) by simp
    have d: "digit_val c < 10" using True by (rule digit_val_less)
    have "n * 10 + digit_val c < 10 * 10 ^ k" using Cons.prems(2) d by linarith
    then have 1: "n * 10 + digit_val c < 10 ^ Suc k" by simp
    have 2: "\<not> list_all is_digit cs" using Cons.prems(1) True by simp
    have 3: "Suc k + length cs \<le> 18" using Cons.prems(3) by simp
    from Cons.IH [OF 2 1 3] True n d show ?thesis by simp
  qed
qed

lemma ParseInt_syntax_error:
  assumes "\<not> integer_syntax s" "length s \<le> 18"
  shows "strconv_ParseInt s = (0, Some ErrSyntax)"
proof (cases s)
  case Nil
  then show ?thesis by (simp add: strconv_ParseInt_def)
next
  case (Cons c r)
  show ?thesis
  proof (cases "c = CHR ''+'' \<or> c = CHR ''-''")
    case True
    have "\<not> (r \<noteq> [] \<and> list_all is_digit r)"
    proof
      assume "r \<noteq> [] \<and> list_all is_digit r"
      then have "integer_syntax s"
        using True Cons unfolding integer_syntax_def by (intro exI [of _ r]) auto
      with assms(1) show False ..
    qed
    then have "strconv_ParseUint r = (0, Some ErrSyntax)"
      using assms(2) Cons ParseUint_digits_syntax [of r 0 0]
      by (auto simp: strconv_ParseUint_def)
    then show ?thesis using True Cons by (auto simp: strconv_ParseInt_def Let_def)
  next
    case False
    have "\<not> list_all is_digit s"
    proof
      assume "list_all is_digit s"
      then have "integer_syntax s"
        using Cons unfolding integer_syntax_def by (intro exI [of _ s]) auto
      with assms(1) show False ..
    qed
    then have "strconv_ParseUint s = (0, Some ErrSyntax)"
      using assms(2) Cons ParseUint_digits_syntax [of s 0 0]
      by (auto simp: strconv_ParseUint_def)
    then show ?thesis using False Cons by (auto simp: strconv_ParseInt_def Let_def)
  qed
qed

lemma ParseInt_dropped_error:
  "snd (strconv_ParseInt s) = Some ErrSyntax \<Longrightarrow> fst (strconv_ParseInt s) = 0"
  by (auto simp: strconv_ParseInt_def Let_def split: if_splits prod.splits)

lemma ParseUint_digits_clean:
  "snd (ParseUint_digits n ds) = None \<Longrightarrow> list_all is_digit ds"
  by (induction ds arbitrary: n) (auto split: if_splits)

lemma ParseUint_digits_range:
  "snd (ParseUint_digits n ds) = Some ErrRange \<Longrightarrow>
     fst (ParseUint_digits n ds) = 18446744073709551615"
  by (induction ds arbitrary: n) (auto split: if_splits)

lemma ParseUint_range:
  assumes "strconv_ParseUint s = (un, Some ErrRange)"
  shows "un = 18446744073709551615"
proof -
  from assms have "ParseUint_digits 0 s = (un, Some ErrRange)"
    by (auto simp: strconv_ParseUint_def split: if_splits)
  then show ?thesis using ParseUint_digits_range [of 0 s] by simp
qed

lemma ParseInt_ParseUint_clean:
  assumes "snd (strconv_ParseInt s) = None" "s \<noteq> []"
  shows "snd (strconv_ParseUint
    (if hd s = CHR ''+'' \<or> hd s = CHR ''-'' then tl s else s)) = None"
proof -
  let ?ds = "if hd s = CHR ''+'' \<or> hd s = CHR ''-'' then tl s else s"
  obtain un err where u: "strconv_ParseUint ?ds = (un, err)" by (cases "strconv_ParseUint ?ds")
  show ?thesis
  proof (cases err)
    case None
    with u show ?thesis by simp
  next
    case (Some e)
    show ?thesis
    proof (cases e)
      case ErrSyntax
      with assms u Some show ?thesis by (simp add: strconv_ParseInt_def Let_def)
    next
      case ErrRange
      with u Some have "un = 18446744073709551615" using ParseUint_range by blast
      with assms u Some ErrRange show ?thesis
        by (simp add: strconv_ParseInt_def Let_def split: if_splits)
    qed
  qed
qed

lemma ParseInt_clean:
  assumes "snd (strconv_ParseInt s) = None"
  shows "integer_syntax s"
proof (cases s)
  case Nil
  with assms show ?thesis by (simp add: strconv_ParseInt_def)
next
  case (Cons c r)
  show ?thesis
  proof (cases "c = CHR ''+'' \<or> c = CHR ''-''")
    case True
    from ParseInt_ParseUint_clean [OF assms] True Cons
    have "snd (strconv_ParseUint r) = None" by simp
    then have "r \<noteq> [] \<and> list_all is_digit r"
      by (auto simp: strconv_ParseUint_def split: if_splits dest: ParseUint_digits_clean)
    then show ?thesis
      using True Cons unfolding integer_syntax_def by (intro exI [of _ r]) auto
  next
    case False
    from ParseInt_ParseUint_clean [OF assms] False Cons
    have "snd (strconv_ParseUint s) = None" by simp
    then have "s \<noteq> [] \<and> list_all is_digit s"
      by (auto simp: strconv_ParseUint_def split: if_splits dest: ParseUint_digits_clean)
    then show ?thesis
      unfolding integer_syntax_def by (intro exI [of _ s]) auto
  qed
qed

lemma ParseInt_range_key:
  "snd (strconv_ParseInt s) = Some ErrRange \<Longrightarrow>
     fst (strconv_ParseInt s) = 2 ^ 63 - 1 \<or> fst (strconv_ParseInt s) = - (2 ^ 63)"
  by (auto simp: strconv_ParseInt_def Let_def split: if_splits prod.splits)

lemma sort_index_fault: "sort_index r = Inl f \<Longrightarrow> f = IndexOutOfRange"
  by (auto simp: sort_index_def split: list.splits)

subsection \<open>The merge\<close>

lemma addWorker_field:
  assumes "f \<in> set sum_fields"
  shows "f (Sums (addWorker m w)) = f64_add (f (Sums m)) (f (Sums w))"
  using assms by (auto simp: sum_fields_def addWorker_def)

lemma foldl_addWorker_field:
  assumes "f \<in> set sum_fields"
  shows "f (Sums (foldl addWorker m ws)) = foldl f64_add (f (Sums m)) (map (\<lambda>w. f (Sums w)) ws)"
  by (induction ws arbitrary: m) (simp_all add: addWorker_field [OF assms])

lemma foldl_f64_add_exact:
  assumes "a \<in> \<int>" "\<forall>x \<in> set xs. x \<in> \<int>" "\<bar>a\<bar> + (\<Sum>x\<leftarrow>xs. \<bar>x\<bar>) < 2 ^ 53"
  shows "foldl f64_add a xs = a + sum_list xs"
  using assms
proof (induction xs arbitrary: a)
  case Nil
  then show ?case by simp
next
  case (Cons x xs)
  have nn: "0 \<le> (\<Sum>x\<leftarrow>xs. \<bar>x\<bar>)" by (rule sum_list_nonneg) auto
  have "\<bar>a + x\<bar> \<le> \<bar>a\<bar> + \<bar>x\<bar>" by (rule abs_triangle_ineq)
  then have small: "\<bar>a + x\<bar> < 2 ^ 53" using Cons.prems(3) nn by simp
  have x: "x \<in> \<int>" using Cons.prems(2) by simp
  have step: "f64_add a x = a + x"
    using Cons.prems(1) x small by (rule f64_add_Ints)
  have "foldl f64_add (a + x) xs = a + x + sum_list xs"
  proof (rule Cons.IH)
    show "a + x \<in> \<int>" using Cons.prems(1) x by simp
    show "\<forall>x \<in> set xs. x \<in> \<int>" using Cons.prems(2) by simp
    show "\<bar>a + x\<bar> + (\<Sum>x\<leftarrow>xs. \<bar>x\<bar>) < 2 ^ 53"
      using Cons.prems(3) abs_triangle_ineq [of a x] by simp
  qed
  then show ?case by (simp add: step)
qed

lemma sum_list_perm:
  fixes g :: "'a \<Rightarrow> 'b::comm_monoid_add"
  assumes "mset xs = mset ys"
  shows "(\<Sum>x\<leftarrow>xs. g x) = (\<Sum>x\<leftarrow>ys. g x)"
proof -
  have "mset (map g xs) = mset (map g ys)" using assms by (metis mset_map)
  then show ?thesis by (metis sum_mset_sum_list)
qed

lemma merged_field:
  assumes "f \<in> set sum_fields" "whole_seconds ws"
  shows "f (Sums (mergeWorkers ws)) = (\<Sum>w\<leftarrow>ws. f (Sums w))"
proof -
  have z: "f (Sums zeroResult) = 0"
    using assms(1) by (auto simp: sum_fields_def zeroResult_def zeroSums_def)
  have "foldl f64_add 0 (map (\<lambda>w. f (Sums w)) ws) = 0 + sum_list (map (\<lambda>w. f (Sums w)) ws)"
  proof (rule foldl_f64_add_exact)
    show "(0::rat) \<in> \<int>" by simp
    show "\<forall>x \<in> set (map (\<lambda>w. f (Sums w)) ws). x \<in> \<int>"
      using assms by (auto simp: whole_seconds_def)
    show "\<bar>0::rat\<bar> + (\<Sum>x\<leftarrow>map (\<lambda>w. f (Sums w)) ws. \<bar>x\<bar>) < 2 ^ 53"
      using assms by (auto simp: whole_seconds_def comp_def)
  qed
  then show ?thesis
    by (simp add: mergeWorkers_def foldl_addWorker_field [OF assms(1)] z)
qed

lemma whole_seconds_perm:
  assumes "mset ws' = mset ws" "whole_seconds ws"
  shows "whole_seconds ws'"
proof -
  have s: "set ws' = set ws" using assms(1) by (rule mset_eq_setD)
  have "\<And>f :: MeasureSums \<Rightarrow> float64.
      (\<Sum>w\<leftarrow>ws'. \<bar>f (Sums w)\<bar>) = (\<Sum>w\<leftarrow>ws. \<bar>f (Sums w)\<bar>)"
    by (rule sum_list_perm [OF assms(1)])
  then show ?thesis using assms(2) by (simp add: whole_seconds_def s)
qed

lemma merged_counts:
  "ReadyCount (Service (foldl addWorker m ws)) =
     ReadyCount (Service m) + (\<Sum>w\<leftarrow>ws. ReadyCount (Service w))"
  "NotReadyCount (Service (foldl addWorker m ws)) =
     NotReadyCount (Service m) + (\<Sum>w\<leftarrow>ws. NotReadyCount (Service w))"
  "NotFoundCount (Service (foldl addWorker m ws)) =
     NotFoundCount (Service m) + (\<Sum>w\<leftarrow>ws. NotFoundCount (Service w))"
  "FailCount (Service (foldl addWorker m ws)) =
     FailCount (Service m) + (\<Sum>w\<leftarrow>ws. FailCount (Service w))"
  by (induction ws arbitrary: m) (simp_all add: addWorker_def)

lemma merged_samples:
  "SvcReadyTime (foldl addWorker m ws) = SvcReadyTime m @ concat (map SvcReadyTime ws)"
  by (induction ws arbitrary: m) (simp_all add: addWorker_def)

lemma mset_concat_perm:
  assumes "mset xs = mset ys"
  shows "mset (concat (map g xs)) = mset (concat (map g ys))"
proof -
  have "\<And>zs. mset (concat (map g zs)) = (\<Sum>z\<leftarrow>zs. mset (g z))"
    by (induct_tac zs) simp_all
  then show ?thesis using sum_list_perm [OF assms, of "\<lambda>z. mset (g z)"] by simp
qed

lemma f64_round_2_53: "f64_round 9007199254740992 = 9007199254740992"
  using f64_round_near [of 53 9007199254740992 4503599627370496] by simp

lemma f64_round_2_53_plus_1: "f64_round 9007199254740993 = 9007199254740992"
  using f64_round_tie [of 53 9007199254740993 4503599627370496] by simp

lemma f64_round_2_53_plus_2: "f64_round 9007199254740994 = 9007199254740994"
  using f64_round_near [of 53 9007199254740994 4503599627370497] by simp

subsection \<open>Sorting\<close>












text \<open>The insertion sort keeps what \<open>sort.Slice\<close> promises.\<close>

lemma insert_left_sorts:
  assumes "\<forall>a \<in> insert x (set ys). \<forall>b \<in> insert x (set ys). cmp a b = Inr (key a < key b)"
  shows "\<exists>zs. insert_left cmp x ys = Inr zs \<and> mset zs = add_mset x (mset ys) \<and>
    (sorted (rev (map key ys)) \<longrightarrow> sorted (rev (map key zs)))"
  using assms
proof (induction ys)
  case Nil
  then show ?case by simp
next
  case (Cons y ys)
  have c: "cmp x y = Inr (key x < key y)" using Cons.prems by simp
  show ?case
  proof (cases "key x < key y")
    case True
    from Cons.IH Cons.prems obtain zs where
      zs: "insert_left cmp x ys = Inr zs" "mset zs = add_mset x (mset ys)"
        "sorted (rev (map key ys)) \<longrightarrow> sorted (rev (map key zs))"
      by auto
    have s: "set zs = insert x (set ys)" using zs(2) by (metis set_mset_add_mset_insert set_mset_mset)
    have "sorted (rev (map key (y # ys))) \<longrightarrow> sorted (rev (map key (y # zs)))"
      using zs(3) True by (auto simp: sorted_append s)
    then show ?thesis using c True zs(1,2) by simp
  next
    case False
    have "sorted (rev (map key (y # ys))) \<longrightarrow> sorted (rev (map key (x # y # ys)))"
      using False by (fastforce simp: sorted_append)
    then show ?thesis using c False by simp
  qed
qed

lemma insertion_loop_sorts:
  assumes "\<forall>a \<in> set prefix \<union> set xs. \<forall>b \<in> set prefix \<union> set xs. cmp a b = Inr (key a < key b)"
    and "sorted (rev (map key prefix))"
  shows "\<exists>ys. insertion_loop cmp prefix xs = Inr ys \<and> mset ys = mset prefix + mset xs \<and>
    sorted (map key ys)"
  using assms
proof (induction xs arbitrary: prefix)
  case Nil
  then show ?case by (simp add: rev_map)
next
  case (Cons x xs)
  have "\<forall>a \<in> insert x (set prefix). \<forall>b \<in> insert x (set prefix). cmp a b = Inr (key a < key b)"
    using Cons.prems(1) by simp
  from insert_left_sorts [OF this] Cons.prems(2) obtain zs where
    zs: "insert_left cmp x prefix = Inr zs" "mset zs = add_mset x (mset prefix)"
      "sorted (rev (map key zs))"
    by blast
  have s: "set zs = insert x (set prefix)"
    using zs(2) by (metis set_mset_add_mset_insert set_mset_mset)
  have "\<forall>a \<in> set zs \<union> set xs. \<forall>b \<in> set zs \<union> set xs. cmp a b = Inr (key a < key b)"
    using Cons.prems(1) by (simp add: s)
  from Cons.IH [OF this zs(3)] obtain ys where
    "insertion_loop cmp zs xs = Inr ys" "mset ys = mset zs + mset xs" "sorted (map key ys)"
    by blast
  then show ?case using zs(1,2) by simp
qed

lemma insertionSort_contract: "sort_Slice_contract insertionSort"
  unfolding sort_Slice_contract_def insertionSort_def
proof (intro allI impI)
  fix cmp :: "string list \<Rightarrow> string list \<Rightarrow> fault + bool"
    and xs :: "string list list" and key :: "string list \<Rightarrow> int"
  assume "\<forall>a \<in> set xs. \<forall>b \<in> set xs. cmp a b = Inr (key a < key b)"
  then have "\<forall>a \<in> set [] \<union> set xs. \<forall>b \<in> set [] \<union> set xs. cmp a b = Inr (key a < key b)"
    by simp
  from insertion_loop_sorts [OF this]
  show "\<exists>ys. insertion_loop cmp [] xs = Inr ys \<and> mset ys = mset xs \<and> sorted (map key ys)"
    by simp
qed


lemmas sort_simps =
  sortSlice_def insertionSort_def less_rows_def sort_index_def strconv_ParseInt_def
  strconv_ParseUint_def is_digit_def decimal_def digit_val_def numeric_suffix_def Let_def

text \<open>
  The promise of \<open>sort.Slice\<close> does not fix the order among rows of one key: the
  insertion sort of the reversed slice keeps the promise, and it swaps two rows whose
  names agree.
\<close>

lemma reversed_insertionSort_contract:
  "sort_Slice_contract (\<lambda>cmp xs. insertionSort cmp (rev xs))"
  unfolding sort_Slice_contract_def
proof (intro allI impI)
  fix cmp :: "string list \<Rightarrow> string list \<Rightarrow> fault + bool"
    and xs :: "string list list" and key :: "string list \<Rightarrow> int"
  assume "\<forall>a \<in> set xs. \<forall>b \<in> set xs. cmp a b = Inr (key a < key b)"
  then have "\<forall>a \<in> set (rev xs). \<forall>b \<in> set (rev xs). cmp a b = Inr (key a < key b)"
    by simp
  with insertionSort_contract obtain ys where
    "insertionSort cmp (rev xs) = Inr ys" "mset ys = mset (rev xs)" "sorted (map key ys)"
    unfolding sort_Slice_contract_def by blast
  then show "\<exists>ys. insertionSort cmp (rev xs) = Inr ys \<and> mset ys = mset xs \<and>
      sorted (map key ys)"
    by simp
qed

lemma equal_keys_may_be_swapped:
  "sortSlice (\<lambda>cmp xs. insertionSort cmp (rev xs))
     [[''svc-1'', ''ns-1''], [''svc-1'', ''ns-2'']] =
   Inr [[''svc-1'', ''ns-2''], [''svc-1'', ''ns-1'']]"
  by (simp add: sort_simps)

text \<open>
  A range error of \<open>ParseInt\<close> is dropped like a syntax error, and then the key is the
  nearest \<open>int64\<close>; the loop over the digits reports the overflow before it reads the
  bytes that follow.
\<close>

lemma range_error_key:
  "strconv_ParseInt ''99999999999999999999'' = (9223372036854775807, Some ErrRange)"
  "strconv_ParseInt ''99999999999999999999x'' = (9223372036854775807, Some ErrRange)"
  "sort_index [''svc-99999999999999999999'', ''ns''] = Inr 9223372036854775807"
  by (simp_all add: sort_simps)

subsection \<open>Two schedules of one run\<close>

text \<open>
  Six targets on the platform \<open>undated\<close>, three workers. Every target is ready and its
  overall duration saturates. When the workers take three, two and one target the run
  reports the overall sum \<open>-7253554917687775 / 2 ^ 17\<close>; when they take three, one
  and two targets, it reports \<open>-7253554917687776 / 2 ^ 17\<close>.
\<close>

lemma schedule_three_two_one:
  "\<exists>raw tbl m.
     MeasureServices basic_libs 3
       [[''svc-1'', ''ns''], [''svc-2'', ''ns''], [''svc-3'', ''ns''],
        [''svc-4'', ''ns''], [''svc-5'', ''ns''], [''svc-6'', ''ns'']]
       [Send 0, Finish 0 undated, Send 0, Finish 0 undated, Send 0, Finish 0 undated,
        Send 1, Finish 1 undated, Send 1, Finish 1 undated, Send 2, Finish 2 undated]
     = Completed (Measurement raw tbl m) \<and>
     ReadyCount (Service m) = 6 \<and>
     SvcReadySum (Sums m) = - (7253554917687775 / 131072)"
  by (simp add: run_simps sort_simps undated_def Sub_saturated Seconds_minDuration
      saturated_sums replicate_three)

lemma schedule_three_one_two:
  "\<exists>raw tbl m.
     MeasureServices basic_libs 3
       [[''svc-1'', ''ns''], [''svc-2'', ''ns''], [''svc-3'', ''ns''],
        [''svc-4'', ''ns''], [''svc-5'', ''ns''], [''svc-6'', ''ns'']]
       [Send 0, Finish 0 undated, Send 0, Finish 0 undated, Send 0, Finish 0 undated,
        Send 2, Finish 2 undated, Send 2, Finish 2 undated, Send 1, Finish 1 undated]
     = Completed (Measurement raw tbl m) \<and>
     ReadyCount (Service m) = 6 \<and>
     SvcReadySum (Sums m) = - (226673591177743 / 4096)"
  by (simp add: run_simps sort_simps undated_def Sub_saturated Seconds_minDuration
      saturated_sums replicate_three)

section \<open>The claims\<close>

text \<open>
  C10. A queue item whose length is not 2 does not stop the worker: its iteration
  returns, adds one to the worker's \<open>FailCount\<close> and to no other counter, writes no
  row, no sum and no sample, stores the worker's result and calls \<open>Done\<close> once.
\<close>

theorem malformed_item_counts_as_fail:
  assumes "length j \<noteq> 2"
  shows "set_aside Fail index v S (iteration timeString P index v j S)"
  using assms by (simp add: iteration_def set_aside_next_item)

theorem malformed_item_counts_as_fail_witness:
  "length [''svc-1''] \<noteq> 2 \<and>
   (\<exists>v' S'. iteration plain_time healthy 0 zeroVars [''svc-1'']
               \<lparr>rows = [], rawRows = [], workerMeasureResults = [zeroResult], group = 1\<rparr>
             = Inr (v', S') \<and>
      FailCount (counts v') = 1 \<and> ReadyCount (counts v') = 0 \<and>
      NotReadyCount (counts v') = 0 \<and> NotFoundCount (counts v') = 0 \<and>
      Sums (currentMeasureResult v') = zeroSums \<and> rows S' = [] \<and> rawRows S' = [] \<and>
      workerMeasureResults S' = [currentMeasureResult v'] \<and> group S' = 0)"
proof -
  have h: "length [''svc-1''] \<noteq> 2" by simp
  from malformed_item_counts_as_fail [OF h, of 0 zeroVars
      "\<lparr>rows = [], rawRows = [], workerMeasureResults = [zeroResult], group = 1\<rparr>"
      plain_time healthy]
  show ?thesis
    by (auto simp: set_aside_def bump_def counts_def zeroVars_def zeroResult_def
        zeroCounts_def split: sum.splits)
qed

text \<open>
  C4, as stated, fails: the code tells a not-found error by the words \<open>not found\<close>
  in its message, so another error of the fetch whose message holds these words is
  counted as not found and not as a failure. Here the credential plugin of the client
  is not installed; the error has no status, and the target is counted as not found.
\<close>

theorem other_error_counted_as_not_found:
  "Services_Get unplugged ''ns'' ''svc-1'' =
     Inl \<lparr>err_Error = ''getting credentials: exec: executable aws not found'',
          err_Reason = []\<rparr> \<and>
   \<not> IsNotFound \<lparr>err_Error = ''getting credentials: exec: executable aws not found'',
                   err_Reason = []\<rparr> \<and>
   set_aside NotFound 0 zeroVars
     \<lparr>rows = [], rawRows = [], workerMeasureResults = [zeroResult], group = 1\<rparr>
     (iteration plain_time unplugged 0 zeroVars [''svc-1'', ''ns'']
        \<lparr>rows = [], rawRows = [], workerMeasureResults = [zeroResult], group = 1\<rparr>) \<and>
   \<not> set_aside Fail 0 zeroVars
     \<lparr>rows = [], rawRows = [], workerMeasureResults = [zeroResult], group = 1\<rparr>
     (iteration plain_time unplugged 0 zeroVars [''svc-1'', ''ns'']
        \<lparr>rows = [], rawRows = [], workerMeasureResults = [zeroResult], group = 1\<rparr>)"
  by (simp add: unplugged_def healthy_def IsNotFound_def iteration_def next_item_def
      set_aside_def counts_def bump_def inc_defs zeroVars_def zeroResult_def zeroCounts_def)

text \<open>
  C4, amended. The fetch of the service classifies the target by the message of its
  error: an error whose message contains \<open>not found\<close> counts as not found, and the
  not-found error that the API machinery builds is one; any other error counts as a
  failure; a service that is fetched and not ready counts as not ready. Once the
  service is fetched and ready, an error of a dependent lookup counts the target as not
  ready, and never as failed or not found, when every condition that is read before
  that lookup is present; when one is missing, the only other end of the iteration is
  the panic of the nil pointer.
\<close>

theorem top_level_fetch_classification:
  "(Services_Get P svcNs svc = Inl (NewNotFound resource name) \<longrightarrow>
      set_aside NotFound index v S (iteration timeString P index v [svc, svcNs] S)) \<and>
   (Services_Get P svcNs svc = Inl err \<and> strings_Contains (err_Error err) ''not found'' \<longrightarrow>
      set_aside NotFound index v S (iteration timeString P index v [svc, svcNs] S)) \<and>
   (Services_Get P svcNs svc = Inl err \<and> \<not> strings_Contains (err_Error err) ''not found'' \<longrightarrow>
      set_aside Fail index v S (iteration timeString P index v [svc, svcNs] S)) \<and>
   (Services_Get P svcNs svc = Inr svcIns \<and> \<not> svc_IsReady svcIns \<longrightarrow>
      set_aside NotReady index v S (iteration timeString P index v [svc, svcNs] S)) \<and>
   (Services_Get P svcNs svc = Inr svcIns \<and> svc_IsReady svcIns \<and>
    dependent_lookup_fails P svcNs svc \<and> conditions_present P svcNs svc svcIns \<longrightarrow>
      set_aside NotReady index v S (iteration timeString P index v [svc, svcNs] S)) \<and>
   (Services_Get P svcNs svc = Inr svcIns \<and> svc_IsReady svcIns \<and>
    dependent_lookup_fails P svcNs svc \<longrightarrow>
      iteration timeString P index v [svc, svcNs] S = Inl NilPointerDereference \<or>
      set_aside NotReady index v S (iteration timeString P index v [svc, svcNs] S))"
proof (intro conjI impI)
  assume "Services_Get P svcNs svc = Inl (NewNotFound resource name)"
  then show "set_aside NotFound index v S (iteration timeString P index v [svc, svcNs] S)"
    by (simp add: iteration_def set_aside_next_item NewNotFound_message)
next
  assume "Services_Get P svcNs svc = Inl err \<and> strings_Contains (err_Error err) ''not found''"
  then show "set_aside NotFound index v S (iteration timeString P index v [svc, svcNs] S)"
    by (simp add: iteration_def set_aside_next_item)
next
  assume "Services_Get P svcNs svc = Inl err \<and>
    \<not> strings_Contains (err_Error err) ''not found''"
  then show "set_aside Fail index v S (iteration timeString P index v [svc, svcNs] S)"
    by (simp add: iteration_def set_aside_next_item)
next
  assume "Services_Get P svcNs svc = Inr svcIns \<and> \<not> svc_IsReady svcIns"
  then show "set_aside NotReady index v S (iteration timeString P index v [svc, svcNs] S)"
    by (simp add: iteration_def set_aside_next_item)
next
  assume a: "Services_Get P svcNs svc = Inr svcIns \<and> svc_IsReady svcIns \<and>
    dependent_lookup_fails P svcNs svc \<and> conditions_present P svcNs svc svcIns"
  show "set_aside NotReady index v S (iteration timeString P index v [svc, svcNs] S)"
    using a
    apply (simp add: iteration_def dependent_lookup_fails_def conditions_present_def deref_def
        Let_def split: sum.splits option.splits pod_outcome.splits)
    apply (auto simp: counts_def inc_defs bump_def
        intro!: set_aside_next_item dest: pod_stage_result started_pod_stage)
    done
next
  assume a: "Services_Get P svcNs svc = Inr svcIns \<and> svc_IsReady svcIns \<and>
    dependent_lookup_fails P svcNs svc"
  show "iteration timeString P index v [svc, svcNs] S = Inl NilPointerDereference \<or>
      set_aside NotReady index v S (iteration timeString P index v [svc, svcNs] S)"
    using a
    apply (simp add: iteration_def dependent_lookup_fails_def deref_def Let_def
        split: sum.splits option.splits pod_outcome.splits)
    apply (auto simp: counts_def inc_defs bump_def
        intro!: set_aside_next_item dest: pod_stage_result)
    done
qed

theorem top_level_fetch_classification_witness:
  "set_aside NotFound 0 zeroVars
     \<lparr>rows = [], rawRows = [], workerMeasureResults = [zeroResult], group = 1\<rparr>
     (iteration plain_time absent 0 zeroVars [''svc-1'', ''ns'']
        \<lparr>rows = [], rawRows = [], workerMeasureResults = [zeroResult], group = 1\<rparr>) \<and>
   set_aside NotFound 0 zeroVars
     \<lparr>rows = [], rawRows = [], workerMeasureResults = [zeroResult], group = 1\<rparr>
     (iteration plain_time unplugged 0 zeroVars [''svc-1'', ''ns'']
        \<lparr>rows = [], rawRows = [], workerMeasureResults = [zeroResult], group = 1\<rparr>) \<and>
   set_aside Fail 0 zeroVars
     \<lparr>rows = [], rawRows = [], workerMeasureResults = [zeroResult], group = 1\<rparr>
     (iteration plain_time unreachable 0 zeroVars [''svc-1'', ''ns'']
        \<lparr>rows = [], rawRows = [], workerMeasureResults = [zeroResult], group = 1\<rparr>) \<and>
   set_aside NotReady 0 zeroVars
     \<lparr>rows = [], rawRows = [], workerMeasureResults = [zeroResult], group = 1\<rparr>
     (iteration plain_time unready 0 zeroVars [''svc-1'', ''ns'']
        \<lparr>rows = [], rawRows = [], workerMeasureResults = [zeroResult], group = 1\<rparr>) \<and>
   list_all
     (\<lambda>P. dependent_lookup_fails P ''ns'' ''svc-1'' \<and>
        (\<exists>svcIns. Services_Get P ''ns'' ''svc-1'' = Inr svcIns \<and> svc_IsReady svcIns \<and>
           conditions_present P ''ns'' ''svc-1'' svcIns) \<and>
        set_aside NotReady 0 zeroVars
          \<lparr>rows = [], rawRows = [], workerMeasureResults = [zeroResult], group = 1\<rparr>
          (iteration plain_time P 0 zeroVars [''svc-1'', ''ns'']
             \<lparr>rows = [], rawRows = [], workerMeasureResults = [zeroResult], group = 1\<rparr>))
     [lagging, no_revision, no_pods, no_deployment, no_autoscaler, no_mesh, no_ingress]"
proof -
  let ?S = "\<lparr>rows = [], rawRows = [], workerMeasureResults = [zeroResult], group = 1\<rparr>"
  let ?svc = "\<lparr>svc_CreationTimestamp = 100, svc_IsReady = True,
    svc_ConfigurationsReady = Some 102, svc_RoutesReady = Some 105\<rparr>"
  note c = top_level_fetch_classification
  have 1: "Services_Get absent ''ns'' ''svc-1'' =
      Inl (NewNotFound ''services.serving.knative.dev'' ''svc-1'')"
    by (simp add: absent_def healthy_def)
  have 2: "Services_Get unplugged ''ns'' ''svc-1'' =
      Inl \<lparr>err_Error = ''getting credentials: exec: executable aws not found'',
           err_Reason = []\<rparr> \<and>
      strings_Contains (err_Error
        \<lparr>err_Error = ''getting credentials: exec: executable aws not found'',
         err_Reason = []\<rparr>) ''not found''"
    by (simp add: unplugged_def healthy_def)
  have 3: "Services_Get unreachable ''ns'' ''svc-1'' =
      Inl \<lparr>err_Error = ''connection refused'', err_Reason = []\<rparr> \<and>
      \<not> strings_Contains (err_Error \<lparr>err_Error = ''connection refused'', err_Reason = []\<rparr>)
        ''not found''"
    by (simp add: unreachable_def healthy_def)
  have 4: "Services_Get unready ''ns'' ''svc-1'' = Inr
       \<lparr>svc_CreationTimestamp = 100, svc_IsReady = False,
        svc_ConfigurationsReady = Some 102, svc_RoutesReady = None\<rparr>
      \<and> \<not> svc_IsReady \<lparr>svc_CreationTimestamp = 100, svc_IsReady = False,
        svc_ConfigurationsReady = Some 102, svc_RoutesReady = None\<rparr>"
    by (simp add: unready_def healthy_def)
  from c [of absent "''ns''" "''svc-1''" "''services.serving.knative.dev''" "''svc-1''"
      0 zeroVars ?S plain_time] 1
  have a: "set_aside NotFound 0 zeroVars ?S
      (iteration plain_time absent 0 zeroVars [''svc-1'', ''ns''] ?S)"
    by blast
  from c [of unplugged "''ns''" "''svc-1''" _ _ 0 zeroVars ?S plain_time] 2
  have b: "set_aside NotFound 0 zeroVars ?S
      (iteration plain_time unplugged 0 zeroVars [''svc-1'', ''ns''] ?S)"
    by blast
  from c [of unreachable "''ns''" "''svc-1''" _ _ 0 zeroVars ?S plain_time] 3
  have d: "set_aside Fail 0 zeroVars ?S
      (iteration plain_time unreachable 0 zeroVars [''svc-1'', ''ns''] ?S)"
    by blast
  from c [of unready "''ns''" "''svc-1''" _ _ 0 zeroVars ?S plain_time] 4
  have e: "set_aside NotReady 0 zeroVars ?S
      (iteration plain_time unready 0 zeroVars [''svc-1'', ''ns''] ?S)"
    by blast
  have f: "dependent_lookup_fails P ''ns'' ''svc-1'' \<and>
      (\<exists>svcIns. Services_Get P ''ns'' ''svc-1'' = Inr svcIns \<and> svc_IsReady svcIns \<and>
         conditions_present P ''ns'' ''svc-1'' svcIns) \<and>
      set_aside NotReady 0 zeroVars ?S (iteration plain_time P 0 zeroVars [''svc-1'', ''ns''] ?S)"
    if h: "Services_Get P ''ns'' ''svc-1'' = Inr ?svc \<and> svc_IsReady ?svc \<and>
      dependent_lookup_fails P ''ns'' ''svc-1'' \<and> conditions_present P ''ns'' ''svc-1'' ?svc"
    for P
    using c [of P "''ns''" "''svc-1''" _ _ 0 zeroVars ?S plain_time _ ?svc] h by blast
  have "Services_Get P ''ns'' ''svc-1'' = Inr ?svc \<and> svc_IsReady ?svc \<and>
      dependent_lookup_fails P ''ns'' ''svc-1'' \<and> conditions_present P ''ns'' ''svc-1'' ?svc"
    if "P \<in> set [lagging, no_revision, no_pods, no_deployment, no_autoscaler, no_mesh,
      no_ingress]" for P
    using that
    by (auto simp: lagging_def no_revision_def no_pods_def no_deployment_def
        no_autoscaler_def no_mesh_def no_ingress_def healthy_def dependent_lookup_fails_def
        conditions_present_def started_def Let_def)
  then have g: "list_all
     (\<lambda>P. dependent_lookup_fails P ''ns'' ''svc-1'' \<and>
        (\<exists>svcIns. Services_Get P ''ns'' ''svc-1'' = Inr svcIns \<and> svc_IsReady svcIns \<and>
           conditions_present P ''ns'' ''svc-1'' svcIns) \<and>
        set_aside NotReady 0 zeroVars ?S
          (iteration plain_time P 0 zeroVars [''svc-1'', ''ns''] ?S))
     [lagging, no_revision, no_pods, no_deployment, no_autoscaler, no_mesh, no_ingress]"
    unfolding list_all_iff using f by blast
  from a b d e g show ?thesis by blast
qed

text \<open>
  C7. For a target that is classified ready, the overall duration is the duration of
  the routes: the two variables are equal, the row holds the same text in the columns
  \<open>route_ready\<close> and \<open>overall_ready\<close>, the two sums of the worker grow by the same
  number of seconds, and that number is the sample appended for the percentiles.
\<close>

theorem overall_ready_is_routes_ready:
  assumes "iteration timeString P index v j S = Inr (v', S')"
    and "counts v' = bump Ready (counts v)"
  shows "svcReadyDuration v' = svcRoutesReadyDuration v' \<and>
    (\<exists>row. rows S' = rows S @ [row] \<and> length row = 18 \<and> row ! 17 = row ! 9 \<and>
       row ! 9 = cell (svcRoutesReadyDuration v')) \<and>
    SvcRoutesReadySum (Sums (currentMeasureResult v')) =
      f64_add (SvcRoutesReadySum (Sums (currentMeasureResult v)))
        (Seconds (svcRoutesReadyDuration v')) \<and>
    SvcReadySum (Sums (currentMeasureResult v')) =
      f64_add (SvcReadySum (Sums (currentMeasureResult v)))
        (Seconds (svcRoutesReadyDuration v')) \<and>
    SvcReadyTime (currentMeasureResult v') =
      SvcReadyTime (currentMeasureResult v) @ [Seconds (svcRoutesReadyDuration v')] \<and>
    rows_header ! 9 = ''route_ready'' \<and> rows_header ! 17 = ''overall_ready''"
proof -
  have rc: "ReadyCount (Service (currentMeasureResult v')) =
      ReadyCount (Service (currentMeasureResult v)) + 1"
    using assms(2) by (simp add: counts_def bump_def)
  have hdr: "rows_header ! 9 = ''route_ready'' \<and> rows_header ! 17 = ''overall_ready''"
    by (simp add: rows_header_def)
  have "svcReadyDuration v' = svcRoutesReadyDuration v' \<and>
    (\<exists>row. rows S' = rows S @ [row] \<and> length row = 18 \<and> row ! 17 = row ! 9 \<and>
       row ! 9 = cell (svcRoutesReadyDuration v')) \<and>
    SvcRoutesReadySum (Sums (currentMeasureResult v')) =
      f64_add (SvcRoutesReadySum (Sums (currentMeasureResult v)))
        (Seconds (svcRoutesReadyDuration v')) \<and>
    SvcReadySum (Sums (currentMeasureResult v')) =
      f64_add (SvcReadySum (Sums (currentMeasureResult v)))
        (Seconds (svcRoutesReadyDuration v')) \<and>
    SvcReadyTime (currentMeasureResult v') =
      SvcReadyTime (currentMeasureResult v) @ [Seconds (svcRoutesReadyDuration v')]"
    using assms(1) rc
    apply (simp add: iteration_def deref_def Let_def next_item_def
        split: if_splits sum.splits option.splits pod_outcome.splits)
    apply (auto simp: inc_defs addSums_def
        dest!: pod_stage_result(1) pod_stage_routes)
    done
  with hdr show ?thesis by simp
qed

theorem overall_ready_is_routes_ready_witness:
  "\<exists>v' S'.
     iteration plain_time healthy 0 zeroVars [''svc-1'', ''ns'']
       \<lparr>rows = [], rawRows = [], workerMeasureResults = [zeroResult], group = 1\<rparr>
     = Inr (v', S') \<and>
     counts v' = bump Ready (counts zeroVars) \<and>
     svcReadyDuration v' = svcRoutesReadyDuration v' \<and>
     (\<exists>row. rows S' = [row] \<and> row ! 9 = ''5'' \<and> row ! 17 = ''5'') \<and>
     SvcReadyTime (currentMeasureResult v') = [5]"
proof -
  let ?S = "\<lparr>rows = [], rawRows = [], workerMeasureResults = [zeroResult], group = 1\<rparr>"
  obtain v' S' where it: "iteration plain_time healthy 0 zeroVars [''svc-1'', ''ns''] ?S
      = Inr (v', S')"
    and c: "counts v' = bump Ready (counts zeroVars)"
    and d: "svcRoutesReadyDuration v' = Sub 105 100"
    by (simp add: iteration_def healthy_def pod_stage_def deref_def next_item_def
        counts_def bump_def inc_defs zeroVars_def Let_def)
  from overall_ready_is_routes_ready [OF it c]
  show ?thesis using it c d
    by (auto simp: cell_Sub Seconds_Sub Sprintf_d_def digits.simps zeroVars_def zeroResult_def)
qed

text \<open>
  C8. With no target the run fails with \<open>no service found to measure\<close>, whatever the
  workers would do: nothing is sent, the wait is not entered, and there is no table,
  no aggregate and no statistics. (The slice of per-worker results is made first, so
  the number of workers must not be negative.)
\<close>

theorem empty_target_list_is_fatal:
  assumes "0 \<le> Concurrency"
  shows "MeasureServices L Concurrency [] events = Failed ''no service found to measure''"
  using assms by (simp add: MeasureServices_def)

theorem empty_target_list_is_fatal_witness:
  "(0::int) \<le> 10 \<and>
   MeasureServices basic_libs 10 [] [Send 0, Finish 0 healthy] =
     Failed ''no service found to measure''"
proof -
  have h: "(0::int) \<le> 10" by simp
  from empty_target_list_is_fatal [OF h, of basic_libs "[Send 0, Finish 0 healthy]"] h
  show ?thesis by blast
qed

text \<open>
  C1. In every run that completes, the four counts of the merged result add up to the
  number of enumerated targets: each target is sent once, each iteration adds one to
  one counter, and the wait returns only when no worker holds an item.
\<close>

theorem every_target_is_counted_once:
  assumes "MeasureServices L Concurrency svcNamespacedName events = Completed rep"
  shows "(case rep of
            Measurement raw tbl m \<Rightarrow> total_count (Service m) = int (length svcNamespacedName)
          | CountsOnly info n r nr nf f \<Rightarrow>
              n = int (length svcNamespacedName) \<and>
              r + nr + nf + f = int (length svcNamespacedName))"
proof -
  from assms obtain E where
    ex: "exec (Time_String L) events (start (nat Concurrency) svcNamespacedName) = Run E"
    and fin: "pending E = []" "group (store E) = 0"
    and con: "conclude L (store E) = Completed rep"
    by (auto simp: MeasureServices_def split: if_splits run.splits)
  have inv: "pool_inv (length svcNamespacedName) E"
    using ex pool_inv_start by (rule pool_inv_exec)
  then have "classified_total (workerMeasureResults (store E)) = int (length svcNamespacedName)"
    using fin by (simp add: pool_inv_def)
  then have tot: "total_count (Service (mergeWorkers (workerMeasureResults (store E)))) =
      int (length svcNamespacedName)"
    by (simp add: mergeWorkers_total)
  show ?thesis
    using con tot
    by (auto simp: conclude_def Let_def total_count_def split: sum.splits if_splits)
qed

theorem every_target_is_counted_once_witness:
  "\<exists>raw tbl m.
     MeasureServices basic_libs 2
       [[''svc-1'', ''ns''], [''svc-2'', ''ns''], [''svc-3'', ''ns'']]
       [Send 0, Send 1, Finish 1 absent, Finish 0 healthy, Send 1, Finish 1 lagging]
     = Completed (Measurement raw tbl m) \<and>
     total_count (Service m) = 3 \<and>
     Service m = \<lparr>ReadyCount = 1, NotReadyCount = 1, NotFoundCount = 1, FailCount = 0\<rparr> \<and>
     SvcReadyTime m = [5] \<and> map hd tbl = [''svc_name'', ''svc-1'']"
proof -
  obtain raw tbl m where
    run: "MeasureServices basic_libs 2
       [[''svc-1'', ''ns''], [''svc-2'', ''ns''], [''svc-3'', ''ns'']]
       [Send 0, Send 1, Finish 1 absent, Finish 0 healthy, Send 1, Finish 1 lagging]
     = Completed (Measurement raw tbl m)"
    and m: "Service m = \<lparr>ReadyCount = 1, NotReadyCount = 1, NotFoundCount = 1, FailCount = 0\<rparr>"
      "SvcReadyTime m = [5]" "map hd tbl = [''svc_name'', ''svc-1'']"
    by (simp add: run_simps rows_header_def)
  from every_target_is_counted_once [OF run]
  have "total_count (Service m) = 3" by simp
  with run m show ?thesis by (intro exI [of _ raw] exI [of _ tbl] exI [of _ m] conjI)
qed

text \<open>
  C2 fails on the code. The four pod durations are declared before the loop over the
  channel, and the block that assigns them is skipped when the pod list is empty: the
  row of such a target repeats the durations of the last target of the same worker
  that had a pod, and they are added to the sums again. Here one worker measures
  \<open>svc-1\<close> (pod scheduled after 3 seconds) and then \<open>svc-2\<close>, which has no pod: the
  raw table shows no pod instant for \<open>svc-2\<close>, the table shows 3, 4, 2 and 2 seconds.
\<close>

theorem stale_pod_durations:
  "\<exists>E. exec plain_time [Send 0, Finish 0 healthy, Send 0, Finish 0 podless]
         (start 1 [[''svc-1'', ''ns''], [''svc-2'', ''ns'']]) = Run E \<and>
       map (\<lambda>r. [r ! 0, r ! 5, r ! 6, r ! 7, r ! 8]) (rows (store E)) =
         [[''svc-1'', ''3'', ''4'', ''2'', ''2''], [''svc-2'', ''3'', ''4'', ''2'', ''2'']] \<and>
       map (\<lambda>r. [r ! 0, r ! 7, r ! 8]) (rawRows (store E)) =
         [[''svc-1'', ''101'', ''104''], [''svc-2'', ''-62135596800'', ''-62135596800'']] \<and>
       PodScheduledSum (Sums (workerMeasureResults (store E) ! 0)) = 6 \<and>
       ReadyCount (Service (workerMeasureResults (store E) ! 0)) = 2"
  by (simp add: run_simps)

text \<open>
  C5. The statistics are computed in the branch \<open>ReadyCount > 0\<close> only. With no ready
  target the run reports the versions, the total and the four counts, and forms no
  quotient. With a ready target the divisor \<open>float64(ReadyCount)\<close> is not zero, and
  each of the fifteen stage averages and the overall average is the sum of its stage
  divided by it.
\<close>

theorem statistics_need_a_ready_target:
  assumes "conclude L S = Completed rep"
  shows "(let m = mergeWorkers (workerMeasureResults S); n = ReadyCount (Service m) in
    (n \<le> 0 \<longrightarrow>
       rep = CountsOnly
         \<lparr>ServingVersion = knativeVersion L ''serving'',
          EventingVersion = knativeVersion L ''eventing'',
          IngressController = ingressInfo L ''ingressController'',
          IngressVersion = ingressInfo L ''version''\<rparr>
         (total_count (Service m)) n (NotReadyCount (Service m))
         (NotFoundCount (Service m)) (FailCount (Service m))) \<and>
    (0 < n \<longrightarrow>
       f64_of_int n \<noteq> 0 \<and>
       (\<exists>raw tbl r. rep = Measurement raw tbl r \<and>
          Sums r = Sums m \<and> Service r = Service m \<and> SvcReadyTime r = SvcReadyTime m \<and>
          AverageSvcConfigurationReadySum (Result r) =
            f64_div (SvcConfigurationsReadySum (Sums m)) (f64_of_int n) \<and>
          AverageRevisionReadySum (Result r) =
            f64_div (RevisionReadySum (Sums m)) (f64_of_int n) \<and>
          AverageDeploymentCreatedSum (Result r) =
            f64_div (DeploymentCreatedSum (Sums m)) (f64_of_int n) \<and>
          AveragePodScheduledSum (Result r) =
            f64_div (PodScheduledSum (Sums m)) (f64_of_int n) \<and>
          AverageContainersReadySum (Result r) =
            f64_div (ContainersReadySum (Sums m)) (f64_of_int n) \<and>
          AverageQueueProxyStartedSum (Result r) =
            f64_div (QueueProxyStartedSum (Sums m)) (f64_of_int n) \<and>
          AverageUserContrainerStartedSum (Result r) =
            f64_div (UserContrainerStartedSum (Sums m)) (f64_of_int n) \<and>
          AverageKpaActiveSum (Result r) =
            f64_div (KpaActiveSum (Sums m)) (f64_of_int n) \<and>
          AverageSksReadySum (Result r) =
            f64_div (SksReadySum (Sums m)) (f64_of_int n) \<and>
          AverageSksActivatorEndpointsPopulatedSum (Result r) =
            f64_div (SksActivatorEndpointsPopulatedSum (Sums m)) (f64_of_int n) \<and>
          AverageSksEndpointsPopulatedSum (Result r) =
            f64_div (SksEndpointsPopulatedSum (Sums m)) (f64_of_int n) \<and>
          AverageSvcRoutesReadySum (Result r) =
            f64_div (SvcRoutesReadySum (Sums m)) (f64_of_int n) \<and>
          AverageIngressReadySum (Result r) =
            f64_div (IngressReadySum (Sums m)) (f64_of_int n) \<and>
          AverageIngressNetworkConfiguredSum (Result r) =
            f64_div (IngressNetworkConfiguredSum (Sums m)) (f64_of_int n) \<and>
          AverageIngressLoadBalancerReadySum (Result r) =
            f64_div (IngressLoadBalancerReadySum (Sums m)) (f64_of_int n) \<and>
          OverallAverage (Result r) = f64_div (SvcReadySum (Sums m)) (f64_of_int n))))"
proof -
  define m where "m = mergeWorkers (workerMeasureResults S)"
  show ?thesis
  proof (cases "0 < ReadyCount (Service m)")
    case True
    then have "f64_of_int (ReadyCount (Service m)) \<noteq> 0"
      using f64_of_int_pos [of "ReadyCount (Service m)"] by simp
    then show ?thesis
      using assms True
      by (auto simp: conclude_def statistics_def Let_def simp flip: m_def split: sum.splits)
  next
    case False
    then show ?thesis
      using assms
      by (auto simp: conclude_def Let_def total_count_def simp flip: m_def split: sum.splits)
  qed
qed

theorem statistics_need_a_ready_target_witness:
  "(\<exists>info. conclude basic_libs
      \<lparr>rows = [], rawRows = [],
       workerMeasureResults = [zeroResult\<lparr>Service := zeroCounts\<lparr>NotFoundCount := 1\<rparr>\<rparr>],
       group = 0\<rparr> = Completed (CountsOnly info 1 0 0 1 0)) \<and>
   (\<exists>raw tbl r. conclude basic_libs
      \<lparr>rows = [], rawRows = [],
       workerMeasureResults =
         [zeroResult\<lparr>Sums := zeroSums\<lparr>SvcRoutesReadySum := 10, SvcReadySum := 10\<rparr>,
                     SvcReadyTime := [4, 6],
                     Service := zeroCounts\<lparr>ReadyCount := 2\<rparr>\<rparr>],
       group = 0\<rparr> = Completed (Measurement raw tbl r) \<and>
      OverallAverage (Result r) = 5 \<and> AverageSvcRoutesReadySum (Result r) = 5 \<and>
      AveragePodScheduledSum (Result r) = 0)"
proof -
  let ?S0 = "\<lparr>rows = [], rawRows = [],
       workerMeasureResults = [zeroResult\<lparr>Service := zeroCounts\<lparr>NotFoundCount := 1\<rparr>\<rparr>],
       group = 0\<rparr>"
  let ?S1 = "\<lparr>rows = [], rawRows = [],
       workerMeasureResults =
         [zeroResult\<lparr>Sums := zeroSums\<lparr>SvcRoutesReadySum := 10, SvcReadySum := 10\<rparr>,
                     SvcReadyTime := [4, 6],
                     Service := zeroCounts\<lparr>ReadyCount := 2\<rparr>\<rparr>],
       group = 0\<rparr>"
  obtain rep0 where r0: "conclude basic_libs ?S0 = Completed rep0"
    by (simp add: run_simps)
  obtain rep1 where r1: "conclude basic_libs ?S1 = Completed rep1"
    by (simp add: run_simps)
  from statistics_need_a_ready_target [OF r0]
  have a: "\<exists>info. rep0 = CountsOnly info 1 0 0 1 0"
    by (simp add: run_simps total_count_def)
  from statistics_need_a_ready_target [OF r1]
  have b: "\<exists>raw tbl r. rep1 = Measurement raw tbl r \<and>
      OverallAverage (Result r) = 5 \<and> AverageSvcRoutesReadySum (Result r) = 5 \<and>
      AveragePodScheduledSum (Result r) = 0"
    by (auto simp: run_simps f64_of_int_exact f64_div_def f64_round_Ints)
  from a b r0 r1 show ?thesis by auto
qed

text \<open>
  C9, as stated, fails: a second piece that is not an integer does not always give the
  key 0. \<open>ParseInt\<close> reports the overflow of the twenty nines before it reads the
  letter after them, and a numeral that \<open>int64\<close> does not hold is a range error as
  well; the error is dropped, and the key is the greatest \<open>int64\<close>, so the row sorts
  after \<open>svc-5\<close> and not before it.
\<close>

theorem unparsed_piece_with_greatest_key:
  "strings_Split ''svc-99999999999999999999x'' CHR ''-'' = [''svc'', ''99999999999999999999x''] \<and>
   \<not> integer_syntax ''99999999999999999999x'' \<and>
   strconv_ParseInt ''99999999999999999999x'' = (9223372036854775807, Some ErrRange) \<and>
   sort_index [''svc-99999999999999999999x'', ''ns''] = Inr 9223372036854775807 \<and>
   less_rows [''svc-5'', ''ns''] [''svc-99999999999999999999x'', ''ns''] = Inr True \<and>
   less_rows [''svc-99999999999999999999x'', ''ns''] [''svc-5'', ''ns''] = Inr False \<and>
   strconv_ParseInt ''9223372036854775808'' = (9223372036854775807, Some ErrRange) \<and>
   sort_index [''svc-9223372036854775808'', ''ns''] = Inr 9223372036854775807"
proof -
  have "\<not> integer_syntax ''99999999999999999999x''"
    by (auto simp: integer_syntax_def is_digit_def)
  then show ?thesis by (simp add: sort_simps)
qed

text \<open>
  C9, amended. The comparison of \<open>sortSlice\<close> needs a dash in every name. For a name
  with no dash the split has one piece and reading the second one panics, whichever
  side of the comparison the name is on. For a name with a dash the key is what
  \<open>ParseInt\<close> returns for the second piece, and its error is dropped. A piece that is
  not a decimal numeral always gets an error. With a syntax error the key is 0, and
  every piece of at most 18 characters that is not a decimal numeral gets a syntax
  error; with a range error the key is the greatest or the least \<open>int64\<close>. Two rows
  that have keys are compared by them.
\<close>

theorem comparator_reads_second_piece:
  "(CHR ''-'' \<notin> set name \<longrightarrow>
      sort_index (name # cells) = Inl IndexOutOfRange \<and>
      less_rows (name # cells) other = Inl IndexOutOfRange \<and>
      less_rows other (name # cells) = Inl IndexOutOfRange) \<and>
   (CHR ''-'' \<in> set name \<longrightarrow>
      (\<exists>a0 a1 more. strings_Split name CHR ''-'' = a0 # a1 # more \<and>
         sort_index (name # cells) = Inr (fst (strconv_ParseInt a1)) \<and>
         (\<not> integer_syntax a1 \<longrightarrow> snd (strconv_ParseInt a1) \<noteq> None) \<and>
         (snd (strconv_ParseInt a1) = Some ErrSyntax \<longrightarrow>
            sort_index (name # cells) = Inr 0) \<and>
         (snd (strconv_ParseInt a1) = Some ErrRange \<longrightarrow>
            sort_index (name # cells) = Inr (2 ^ 63 - 1) \<or>
            sort_index (name # cells) = Inr (- (2 ^ 63))) \<and>
         (\<not> integer_syntax a1 \<and> length a1 \<le> 18 \<longrightarrow>
            snd (strconv_ParseInt a1) = Some ErrSyntax))) \<and>
   (sort_index ri = Inr indexa \<and> sort_index rj = Inr indexb \<longrightarrow>
      less_rows ri rj = Inr (indexa < indexb))"
proof (intro conjI impI)
  assume "CHR ''-'' \<notin> set name"
  then show a: "sort_index (name # cells) = Inl IndexOutOfRange"
    by (simp add: sort_index_def strings_Split_no_sep)
  then show "less_rows (name # cells) other = Inl IndexOutOfRange"
    by (simp add: less_rows_def)
  show "less_rows other (name # cells) = Inl IndexOutOfRange"
    using a by (auto simp: less_rows_def split: sum.splits dest: sort_index_fault)
next
  assume "CHR ''-'' \<in> set name"
  from strings_Split_sep [OF this] obtain a0 a1 more
    where s: "strings_Split name CHR ''-'' = a0 # a1 # more" by blast
  then have k: "sort_index (name # cells) = Inr (fst (strconv_ParseInt a1))"
    by (simp add: sort_index_def)
  have 1: "\<not> integer_syntax a1 \<longrightarrow> snd (strconv_ParseInt a1) \<noteq> None"
    using ParseInt_clean by blast
  have 2: "snd (strconv_ParseInt a1) = Some ErrSyntax \<longrightarrow> sort_index (name # cells) = Inr 0"
    using k by (simp add: ParseInt_dropped_error)
  have 3: "snd (strconv_ParseInt a1) = Some ErrRange \<longrightarrow>
      sort_index (name # cells) = Inr (2 ^ 63 - 1) \<or>
      sort_index (name # cells) = Inr (- (2 ^ 63))"
    using k ParseInt_range_key [of a1] by auto
  have 4: "\<not> integer_syntax a1 \<and> length a1 \<le> 18 \<longrightarrow>
      snd (strconv_ParseInt a1) = Some ErrSyntax"
    by (simp add: ParseInt_syntax_error)
  from s k 1 2 3 4
  show "\<exists>a0 a1 more. strings_Split name CHR ''-'' = a0 # a1 # more \<and>
         sort_index (name # cells) = Inr (fst (strconv_ParseInt a1)) \<and>
         (\<not> integer_syntax a1 \<longrightarrow> snd (strconv_ParseInt a1) \<noteq> None) \<and>
         (snd (strconv_ParseInt a1) = Some ErrSyntax \<longrightarrow>
            sort_index (name # cells) = Inr 0) \<and>
         (snd (strconv_ParseInt a1) = Some ErrRange \<longrightarrow>
            sort_index (name # cells) = Inr (2 ^ 63 - 1) \<or>
            sort_index (name # cells) = Inr (- (2 ^ 63))) \<and>
         (\<not> integer_syntax a1 \<and> length a1 \<le> 18 \<longrightarrow>
            snd (strconv_ParseInt a1) = Some ErrSyntax)"
    by blast
next
  assume "sort_index ri = Inr indexa \<and> sort_index rj = Inr indexb"
  then show "less_rows ri rj = Inr (indexa < indexb)"
    by (simp add: less_rows_def)
qed

theorem comparator_reads_second_piece_witness:
  "CHR ''-'' \<notin> set ''svc'' \<and>
   less_rows [''svc'', ''ns''] [''svc-1'', ''ns''] = Inl IndexOutOfRange \<and>
   less_rows [''svc-1'', ''ns''] [''svc'', ''ns''] = Inl IndexOutOfRange \<and>
   CHR ''-'' \<in> set ''svc-one-7'' \<and>
   strings_Split ''svc-one-7'' CHR ''-'' = [''svc'', ''one'', ''7''] \<and>
   \<not> integer_syntax ''one'' \<and> length ''one'' \<le> 18 \<and>
   snd (strconv_ParseInt ''one'') = Some ErrSyntax \<and>
   sort_index [''svc-one-7'', ''ns''] = Inr 0 \<and>
   CHR ''-'' \<in> set ''svc-9223372036854775808'' \<and>
   snd (strconv_ParseInt ''9223372036854775808'') = Some ErrRange \<and>
   (sort_index [''svc-9223372036854775808'', ''ns''] = Inr (2 ^ 63 - 1) \<or>
    sort_index [''svc-9223372036854775808'', ''ns''] = Inr (- (2 ^ 63))) \<and>
   sort_index [''svc-1'', ''ns''] = Inr 1 \<and> sort_index [''svc-5'', ''ns''] = Inr 5 \<and>
   less_rows [''svc-1'', ''ns''] [''svc-5'', ''ns''] = Inr True \<and>
   less_rows [''svc-5'', ''ns''] [''svc-1'', ''ns''] = Inr False"
proof -
  note c = comparator_reads_second_piece
  have 1: "CHR ''-'' \<notin> set ''svc''" by simp
  have 2: "CHR ''-'' \<in> set ''svc-one-7''" by simp
  have 3: "strings_Split ''svc-one-7'' CHR ''-'' = [''svc'', ''one'', ''7'']" by simp
  have 4: "\<not> integer_syntax ''one''"
    by (auto simp: integer_syntax_def is_digit_def)
  have 5: "length ''one'' \<le> 18" by simp
  have 6: "CHR ''-'' \<in> set ''svc-9223372036854775808''" by simp
  have 7: "strings_Split ''svc-9223372036854775808'' CHR ''-'' =
      [''svc'', ''9223372036854775808'']"
    by simp
  have 8: "snd (strconv_ParseInt ''9223372036854775808'') = Some ErrRange"
    by (simp add: sort_simps)
  have 9: "sort_index [''svc-1'', ''ns''] = Inr 1 \<and> sort_index [''svc-5'', ''ns''] = Inr 5"
    by (simp add: sort_simps)
  from c [of "''svc''" "[''ns'']" "[''svc-1'', ''ns'']" "[]" 0 "[]" 0] 1
  have a: "less_rows [''svc'', ''ns''] [''svc-1'', ''ns''] = Inl IndexOutOfRange"
    "less_rows [''svc-1'', ''ns''] [''svc'', ''ns''] = Inl IndexOutOfRange"
    by blast+
  from c [of "''svc-one-7''" "[''ns'']" "[]" "[]" 0 "[]" 0] 2 3 4 5
  have b: "snd (strconv_ParseInt ''one'') = Some ErrSyntax"
    "sort_index [''svc-one-7'', ''ns''] = Inr 0"
    by auto
  from c [of "''svc-9223372036854775808''" "[''ns'']" "[]" "[]" 0 "[]" 0] 6 7 8
  have d: "sort_index [''svc-9223372036854775808'', ''ns''] = Inr (2 ^ 63 - 1) \<or>
      sort_index [''svc-9223372036854775808'', ''ns''] = Inr (- (2 ^ 63))"
    by auto
  from c [of "[]" "[]" "[]" "[''svc-1'', ''ns'']" 1 "[''svc-5'', ''ns'']" 5] 9
  have e: "less_rows [''svc-1'', ''ns''] [''svc-5'', ''ns''] = Inr True" by simp
  from c [of "[]" "[]" "[]" "[''svc-5'', ''ns'']" 5 "[''svc-1'', ''ns'']" 1] 9
  have f: "less_rows [''svc-5'', ''ns''] [''svc-1'', ''ns''] = Inr False" by simp
  from 1 2 3 4 5 6 8 9 a b d e f show ?thesis by blast
qed

text \<open>
  C3, as stated, fails: \<open>float64\<close> addition is commutative but not associative, and
  the merge adds the workers' sums in the order of the workers. Three workers whose
  overall sums are \<open>2 ^ 53\<close>, 1 and 1 merge to \<open>2 ^ 53\<close> in that order and to
  \<open>2 ^ 53 + 2\<close> with the large sum last. (Sums that a run reaches differ in the same
  way: see \<open>schedule_three_two_one\<close> and \<open>schedule_three_one_two\<close>.)
\<close>

theorem merged_sum_depends_on_worker_order:
  "mset [worker_result 1 9007199254740992, worker_result 1 1, worker_result 1 1] =
   mset [worker_result 1 1, worker_result 1 1, worker_result 1 9007199254740992] \<and>
   SvcReadySum (Sums (mergeWorkers
     [worker_result 1 9007199254740992, worker_result 1 1, worker_result 1 1])) =
     9007199254740992 \<and>
   SvcReadySum (Sums (mergeWorkers
     [worker_result 1 1, worker_result 1 1, worker_result 1 9007199254740992])) =
     9007199254740994"
  by (simp add: mergeWorkers_def addWorker_def worker_result_def zeroResult_def zeroSums_def
      f64_add_def f64_round_2_53 f64_round_2_53_plus_1 f64_round_2_53_plus_2 f64_round_Ints)

text \<open>
  C3, amended. For every permutation of the worker results the four counts of the
  merged result are the same and so is the multiset of samples; the sixteen sums are
  the same when the workers' sums are whole seconds that add up to less than
  \<open>2 ^ 53\<close> in absolute value.
\<close>

theorem merge_is_order_independent_when_exact:
  assumes "mset ws' = mset ws"
  shows "Service (mergeWorkers ws') = Service (mergeWorkers ws) \<and>
    mset (SvcReadyTime (mergeWorkers ws')) = mset (SvcReadyTime (mergeWorkers ws)) \<and>
    (whole_seconds ws \<longrightarrow> Sums (mergeWorkers ws') = Sums (mergeWorkers ws))"
proof (intro conjI impI)
  show "Service (mergeWorkers ws') = Service (mergeWorkers ws)"
    by (rule MeasureCounts.equality)
      (simp_all add: mergeWorkers_def merged_counts sum_list_perm [OF assms])
  show "mset (SvcReadyTime (mergeWorkers ws')) = mset (SvcReadyTime (mergeWorkers ws))"
    by (simp add: mergeWorkers_def merged_samples mset_concat_perm [OF assms])
next
  assume w: "whole_seconds ws"
  then have w': "whole_seconds ws'" using assms whole_seconds_perm by blast
  have "\<forall>f \<in> set sum_fields. f (Sums (mergeWorkers ws')) = f (Sums (mergeWorkers ws))"
    using w w' by (simp add: merged_field sum_list_perm [OF assms])
  then show "Sums (mergeWorkers ws') = Sums (mergeWorkers ws)"
    by (intro MeasureSums.equality) (simp_all add: sum_fields_def)
qed

theorem merge_is_order_independent_when_exact_witness:
  "mset [worker_result 2 9, worker_result 0 0, worker_result 1 5] =
   mset [worker_result 0 0, worker_result 1 5, worker_result 2 9] \<and>
   whole_seconds [worker_result 0 0, worker_result 1 5, worker_result 2 9] \<and>
   Sums (mergeWorkers [worker_result 2 9, worker_result 0 0, worker_result 1 5]) =
   Sums (mergeWorkers [worker_result 0 0, worker_result 1 5, worker_result 2 9]) \<and>
   SvcReadySum (Sums (mergeWorkers [worker_result 0 0, worker_result 1 5, worker_result 2 9]))
     = 14 \<and>
   ReadyCount (Service (mergeWorkers [worker_result 2 9, worker_result 0 0, worker_result 1 5]))
     = 3"
proof -
  have p: "mset [worker_result 2 9, worker_result 0 0, worker_result 1 5] =
      mset [worker_result 0 0, worker_result 1 5, worker_result 2 9]"
    by simp
  have w: "whole_seconds [worker_result 0 0, worker_result 1 5, worker_result 2 9]"
    by (simp add: whole_seconds_def sum_fields_def worker_result_def zeroResult_def zeroSums_def)
  have s: "SvcReadySum (Sums (mergeWorkers
      [worker_result 0 0, worker_result 1 5, worker_result 2 9])) = 14"
    by (simp add: mergeWorkers_def addWorker_def worker_result_def zeroResult_def zeroSums_def
        f64_add_Ints)
  from merge_is_order_independent_when_exact [OF p] w
  have e: "Service (mergeWorkers [worker_result 2 9, worker_result 0 0, worker_result 1 5]) =
      Service (mergeWorkers [worker_result 0 0, worker_result 1 5, worker_result 2 9])"
    "Sums (mergeWorkers [worker_result 2 9, worker_result 0 0, worker_result 1 5]) =
      Sums (mergeWorkers [worker_result 0 0, worker_result 1 5, worker_result 2 9])"
    by blast+
  have "ReadyCount (Service (mergeWorkers
      [worker_result 2 9, worker_result 0 0, worker_result 1 5])) = 3"
    unfolding e(1)
    by (simp add: mergeWorkers_def addWorker_def worker_result_def zeroResult_def
        zeroCounts_def)
  with p w s e show ?thesis by blast
qed




end
